theory Spec2Isabelle
  imports Complex_Main "HOL-Library.AList"
begin

section \<open>JavaScript primitives used by the marketplace services\<close>

text \<open>
  JavaScript numbers are modelled as mathematical reals: the finite doubles, without
  rounding. Strings are character lists. A thrown exception is a value of type
  \<open>js_error\<close> on the left of a sum.
\<close>

datatype js_error =
    Error string           \<comment> \<open>\<open>new Error(message)\<close>, and every subclass instance\<close>
  | ThrownUndefined        \<comment> \<open>\<open>throw undefined\<close>: a thrown value that is no \<open>Error\<close>\<close>

text \<open>Decimal rendering of a non-negative integer (\<open>Number.prototype.toString\<close> and
  \<open>BigInt.prototype.toString\<close> on integers below \<open>10^21\<close>).\<close>

definition digitChar :: "nat \<Rightarrow> char" where
  "digitChar d = ''0123456789'' ! d"

fun natToString :: "nat \<Rightarrow> string" where
  "natToString n =
     (if n < 10 then [digitChar n] else natToString (n div 10) @ [digitChar (n mod 10)])"

declare natToString.simps [simp del]

text \<open>Reading a decimal digit string, as \<open>BigInt(s)\<close> does on the strings the schema
  validator \<open>/^\d+$/\<close> admits for \<open>costInWei\<close> (and on the empty string, which is
  \<open>0n\<close>). Any other string is answered by \<open>None\<close>: a \<open>SyntaxError\<close> for most of
  them; signs, white space and radix prefixes are not modelled.\<close>

definition digitVal :: "char \<Rightarrow> nat option" where
  "digitVal c = map_of
     [(CHR ''0'', 0), (CHR ''1'', 1), (CHR ''2'', 2), (CHR ''3'', 3), (CHR ''4'', 4),
      (CHR ''5'', 5), (CHR ''6'', 6), (CHR ''7'', 7), (CHR ''8'', 8), (CHR ''9'', 9)] c"

fun parseDigits :: "nat \<Rightarrow> string \<Rightarrow> nat option" where
  "parseDigits acc [] = Some acc"
| "parseDigits acc (c # cs) =
     (case digitVal c of None \<Rightarrow> None | Some d \<Rightarrow> parseDigits (10 * acc + d) cs)"

definition BigInt :: "string \<Rightarrow> nat option" where
  "BigInt s = parseDigits 0 s"

text \<open>\<open>x.toFixed(d)\<close> for \<open>|x| < 10^21\<close>: the integer \<open>n\<close> nearest to \<open>x * 10^d\<close>
  (the larger one on a tie), written with \<open>d\<close> digits after the point.\<close>

definition padZeros :: "nat \<Rightarrow> string \<Rightarrow> string" where
  "padZeros w s = replicate (w - length s) (CHR ''0'') @ s"

definition toFixedNonneg :: "real \<Rightarrow> nat \<Rightarrow> string" where
  "toFixedNonneg x d =
     (let n = nat \<lfloor>x * 10 ^ d + 1 / 2\<rfloor>;
          s = natToString n
      in if d = 0 then s
         else (let p = padZeros (d + 1) s
               in take (length p - d) p @ ''.'' @ drop (length p - d) p))"

definition toFixed :: "real \<Rightarrow> nat \<Rightarrow> string" where
  "toFixed x d = (if x < 0 then ''-'' @ toFixedNonneg (- x) d else toFixedNonneg x d)"

text \<open>\<open>s.replace(/\.?0+$/, "")\<close>: the leftmost match of an optional point followed by
  one or more zeros up to the end of the string is removed. With the trailing run of
  zeros non-empty, the match starts at a point that stands right before the run, and at
  the first zero of the run otherwise.\<close>

definition stripTrailingZeros :: "string \<Rightarrow> string" where
  "stripTrailingZeros s =
     (let p = rev (dropWhile (\<lambda>c. c = CHR ''0'') (rev s))
      in if length p = length s then s
         else if p \<noteq> [] \<and> last p = CHR ''.'' then butlast p
         else p)"

text \<open>\<open>xs.join(sep)\<close> on strings.\<close>

fun join :: "string \<Rightarrow> string list \<Rightarrow> string" where
  "join sep [] = []"
| "join sep [x] = x"
| "join sep (x # y # ys) = x @ sep @ join sep (y # ys)"

section \<open>\<open>utils/ethUtils.ts\<close>\<close>

text \<open>\<open>EthUtils.weiToEth\<close>: \<open>Number(BigInt(weiAmount)) / 1e18\<close>.\<close>

definition weiToEth :: "string \<Rightarrow> real option" where
  "weiToEth weiAmount = map_option (\<lambda>wei. real wei / 10 ^ 18) (BigInt weiAmount)"

text \<open>\<open>EthUtils.weiToEthString\<close>, with \<open>decimals\<close> defaulting to 6 at the call sites
  that pass none.\<close>

definition weiToEthString :: "string \<Rightarrow> nat \<Rightarrow> string option" where
  "weiToEthString weiAmount decimals =
     map_option (\<lambda>eth. stripTrailingZeros (toFixed eth decimals)) (weiToEth weiAmount)"

text \<open>\<open>EthUtils.formatWei\<close>. \<open>None\<close> is the exception of \<open>BigInt\<close>.\<close>

definition formatWei :: "string \<Rightarrow> string option" where
  "formatWei weiAmount =
     (case weiToEth weiAmount of
        None \<Rightarrow> None
      | Some eth \<Rightarrow>
          if eth \<ge> 1 then map_option (\<lambda>s. s @ '' ETH'') (weiToEthString weiAmount 6)
          else if eth \<ge> 1 / 1000 then Some (toFixed (eth * 1000) 3 @ '' mETH'')
          else Some (weiAmount @ '' wei''))"

section \<open>Data model: \<open>models/apiTool.ts\<close> and \<open>models/toolUsage.ts\<close>\<close>

text \<open>A JSON value (\<open>any\<close> in the TypeScript of the services). An object is the list
  of its properties in insertion order, with distinct keys; a property that is absent
  reads as \<open>undefined\<close>, which is \<open>None\<close> of \<open>map_of\<close>.\<close>

datatype json =
    JNull
  | JBool bool
  | JNum real
  | JStr string
  | JArr "json list"
  | JObj "(string \<times> json) list"

type_synonym js_object = "(string \<times> json) list"

datatype http_method = GET | POST | PUT | DELETE | PATCH

text \<open>The declared type of a parameter. The interface admits five names; any other
  string that reaches \<open>validateType\<close> takes its \<open>default\<close> branch.\<close>

datatype param_type = TString | TNumber | TBoolean | TObject | TArray | TOther string

text \<open>\<open>parameters[i].validation\<close>: every field is optional in \<open>IApiTool\<close>.\<close>

record validation =
  v_min :: "real option"
  v_max :: "real option"
  v_pattern :: "string option"
  v_enum :: "json list option"

record tool_parameter =
  p_name :: string
  p_type :: param_type
  p_required :: bool
  p_description :: string
  p_validation :: "validation option"

record api_config =
  endpoint :: string
  apiMethod :: http_method
  headers :: "(string \<times> string) list option"
  timeout :: "nat option"
  retries :: "nat option"

record pricing =
  costInWei :: string
  ethCost :: "string option"

record tool_metadata =
  tags :: "string list"
  version :: string
  isActive :: bool
  isPublic :: bool

record response_schema =
  rs_structure :: json
  rs_description :: string

record api_tool =
  toolId :: string
  userId :: string
  name :: string
  description :: string
  category :: string
  apiConfig :: api_config
  parameters :: "tool_parameter list"
  responseSchema :: response_schema
  pricing :: pricing
  metadata :: tool_metadata
  embedding :: "real list option"
  createdAt :: nat
  updatedAt :: nat

text \<open>\<open>Partial<IApiTool>\<close>: the same fields, each one optional.\<close>

record tool_data =
  d_toolId :: "string option"
  d_userId :: "string option"
  d_name :: "string option"
  d_description :: "string option"
  d_category :: "string option"
  d_apiConfig :: "api_config option"
  d_parameters :: "tool_parameter list option"
  d_responseSchema :: "response_schema option"
  d_pricing :: "pricing option"
  d_metadata :: "tool_metadata option"
  d_embedding :: "real list option"
  d_createdAt :: "nat option"
  d_updatedAt :: "nat option"

text \<open>A \<open>ToolUsage\<close> document as \<open>logToolUsage\<close> builds it. (The schema adds
  \<open>timestamp\<close>, defaulting to the insertion time.)\<close>

record usage_response =
  r_success :: bool
  r_data :: "json option"
  r_error :: "string option"
  r_statusCode :: "nat option"
  r_executionTime :: real

record usage_billing =
  b_costInWei :: string
  b_paid :: bool

record tool_usage =
  u_toolId :: string
  u_userId :: string
  u_sessionId :: string
  u_parameters :: js_object
  u_response :: usage_response
  u_billing :: usage_billing

section \<open>\<open>services/toolExecution.ts\<close>\<close>

text \<open>\<open>ToolExecutionResult\<close>.\<close>

record result_billing =
  rb_costInWei :: string
  rb_ethCost :: "string option"

record tool_execution_result =
  success :: bool
  data :: "json option"
  error :: "string option"
  statusCode :: "nat option"
  executionTime :: real
  res_toolId :: string
  billing :: result_billing

text \<open>What the engine takes from the JavaScript runtime and leaves to it: the
  coercions of the relational operators and of template strings, and the regular
  expression engine. The theorems below hold for every such runtime.\<close>

record js_env =
  ToNumber :: "json \<Rightarrow> real option"
    \<comment> \<open>\<open>ToNumber\<close> of a value that is not a number; \<open>None\<close> is \<open>NaN\<close>\<close>
  ToString :: "json \<Rightarrow> string"
    \<comment> \<open>\<open>String(v)\<close>\<close>
  NumberToString :: "real \<Rightarrow> string"
  RegExpTest :: "string \<Rightarrow> string \<Rightarrow> bool option"
    \<comment> \<open>\<open>new RegExp(p).test(s)\<close>; \<open>None\<close> when \<open>p\<close> does not compile (a \<open>SyntaxError\<close>)\<close>
  URLSearchParamsToString :: "(string \<times> string) list \<Rightarrow> string"
  JSONstringify :: "js_object \<Rightarrow> string"

definition apostrophe :: string where
  "apostrophe = [CHR 0x27]"

text \<open>\<open>validateType\<close>. No number of the model is \<open>NaN\<close>; \<open>typeof null\<close> is
  \<open>"object"\<close>, which the source excludes by hand.\<close>

fun validateType :: "json \<Rightarrow> param_type \<Rightarrow> bool" where
  "validateType v TString = (case v of JStr _ \<Rightarrow> True | _ \<Rightarrow> False)"
| "validateType v TNumber = (case v of JNum _ \<Rightarrow> True | _ \<Rightarrow> False)"
| "validateType v TBoolean = (case v of JBool _ \<Rightarrow> True | _ \<Rightarrow> False)"
| "validateType v TObject = (case v of JObj _ \<Rightarrow> True | _ \<Rightarrow> False)"
| "validateType v TArray = (case v of JArr _ \<Rightarrow> True | _ \<Rightarrow> False)"
| "validateType v (TOther _) = True"

text \<open>\<open>value < bound\<close> and \<open>value > bound\<close> with a number on the right: the left
  operand is coerced to a number, and a comparison with \<open>NaN\<close> is false.\<close>

definition numberOf :: "js_env \<Rightarrow> json \<Rightarrow> real option" where
  "numberOf env v = (case v of JNum x \<Rightarrow> Some x | _ \<Rightarrow> ToNumber env v)"

definition jsLess :: "js_env \<Rightarrow> json \<Rightarrow> real \<Rightarrow> bool" where
  "jsLess env v bound = (case numberOf env v of None \<Rightarrow> False | Some x \<Rightarrow> x < bound)"

definition jsGreater :: "js_env \<Rightarrow> json \<Rightarrow> real \<Rightarrow> bool" where
  "jsGreater env v bound = (case numberOf env v of None \<Rightarrow> False | Some x \<Rightarrow> x > bound)"

text \<open>\<open>xs.includes(v)\<close> compares by \<open>SameValueZero\<close>: primitives by their value,
  objects and arrays by identity, and a caller-supplied object is identical to none of
  the objects stored with the tool.\<close>

definition includes_v :: "json list \<Rightarrow> json \<Rightarrow> bool" where
  "includes_v xs v = (case v of JObj _ \<Rightarrow> False | JArr _ \<Rightarrow> False | _ \<Rightarrow> v \<in> set xs)"

text \<open>The \<open>pattern\<close> step of \<open>validateConstraints\<close>: skipped unless the pattern is a
  non-empty string and the value a string; compiling the pattern can throw.\<close>

definition patternErrors :: "js_env \<Rightarrow> string \<Rightarrow> json \<Rightarrow> string option \<Rightarrow> js_error + string list" where
  "patternErrors env paramName v pat =
     (case (pat, v) of
        (Some p, JStr s) \<Rightarrow>
          if p = [] then Inr []
          else (case RegExpTest env p s of
                  None \<Rightarrow> Inl (Error (''Invalid regular expression: /'' @ p @ ''/''))
                | Some matches \<Rightarrow>
                    Inr (if \<not> matches
                         then [''Parameter '' @ apostrophe @ paramName @ apostrophe @
                               '' must match pattern '' @ p]
                         else []))
      | _ \<Rightarrow> Inr [])"

text \<open>\<open>validateConstraints\<close>. The last step reads \<open>validation.enum.length\<close> without a
  guard: with \<open>enum\<close> absent this is a \<open>TypeError\<close> (an \<open>Error\<close>, with the
  message of the engine).\<close>

definition enumTypeError :: js_error where
  "enumTypeError =
     Error (''Cannot read properties of undefined (reading '' @ apostrophe @ ''length'' @
            apostrophe @ '')'')"

definition validateConstraints ::
    "js_env \<Rightarrow> string \<Rightarrow> json \<Rightarrow> validation \<Rightarrow> js_error + string list" where
  "validateConstraints env paramName v vd =
     (let errorsMin =
            (case v_min vd of
               Some m \<Rightarrow> if jsLess env v m
                        then [''Parameter '' @ apostrophe @ paramName @ apostrophe @
                              '' must be at least '' @ NumberToString env m]
                        else []
             | None \<Rightarrow> []);
          errorsMax =
            (case v_max vd of
               Some m \<Rightarrow> if jsGreater env v m
                        then [''Parameter '' @ apostrophe @ paramName @ apostrophe @
                              '' must be at most '' @ NumberToString env m]
                        else []
             | None \<Rightarrow> [])
      in case patternErrors env paramName v (v_pattern vd) of
           Inl e \<Rightarrow> Inl e
         | Inr errorsPattern \<Rightarrow>
             (case v_enum vd of
                None \<Rightarrow> Inl enumTypeError
              | Some allowed \<Rightarrow>
                  Inr (errorsMin @ errorsMax @ errorsPattern @
                       (if length allowed > 0 \<and> \<not> includes_v allowed v
                        then [''Parameter '' @ apostrophe @ paramName @ apostrophe @
                              '' must be one of: '' @ join '', '' (map (ToString env) allowed)]
                        else []))))"

fun typeName :: "param_type \<Rightarrow> string" where
  "typeName TString = ''string''"
| "typeName TNumber = ''number''"
| "typeName TBoolean = ''boolean''"
| "typeName TObject = ''object''"
| "typeName TArray = ''array''"
| "typeName (TOther s) = s"

text \<open>\<open>validateParameters\<close>: the loop over the declared parameters, with the list of
  messages collected so far. An exception of \<open>validateConstraints\<close> leaves the loop.\<close>

fun validateParametersLoop ::
    "js_env \<Rightarrow> tool_parameter list \<Rightarrow> js_object \<Rightarrow> string list \<Rightarrow> js_error + string list" where
  "validateParametersLoop env [] params errors = Inr errors"
| "validateParametersLoop env (param # rest) params errors =
     (case map_of params (p_name param) of
        None \<Rightarrow>
          if p_required param
          then validateParametersLoop env rest params
                 (errors @ [''Required parameter '' @ apostrophe @ p_name param @ apostrophe @
                            '' is missing''])
          else validateParametersLoop env rest params errors
      | Some JNull \<Rightarrow>
          if p_required param
          then validateParametersLoop env rest params
                 (errors @ [''Required parameter '' @ apostrophe @ p_name param @ apostrophe @
                            '' is missing''])
          else validateParametersLoop env rest params errors
      | Some v \<Rightarrow>
          (let errors1 =
                 (if \<not> validateType v (p_type param)
                  then errors @ [''Parameter '' @ apostrophe @ p_name param @ apostrophe @
                                 '' must be of type '' @ apostrophe @
                                 typeName (p_type param) @ apostrophe]
                  else errors)
           in case p_validation param of
                None \<Rightarrow> validateParametersLoop env rest params errors1
              | Some vd \<Rightarrow>
                  (case validateConstraints env (p_name param) v vd of
                     Inl e \<Rightarrow> Inl e
                   | Inr validationErrors \<Rightarrow>
                       validateParametersLoop env rest params (errors1 @ validationErrors))))"

definition validateParameters :: "js_env \<Rightarrow> api_tool \<Rightarrow> js_object \<Rightarrow> js_error + string list" where
  "validateParameters env tool params = validateParametersLoop env (parameters tool) params []"

text \<open>An object spread \<open>{...base, ...extra}\<close>: the properties of \<open>extra\<close> are
  assigned in order onto those of \<open>base\<close>; a key that is already there keeps its
  place and takes the new value.\<close>

definition spread :: "(string \<times> 'v) list \<Rightarrow> (string \<times> 'v) list \<Rightarrow> (string \<times> 'v) list" where
  "spread base extra = fold (\<lambda>(k, v) acc. AList.update k v acc) extra base"

record request_config =
  rq_url :: string
  rq_method :: http_method
  rq_headers :: "(string \<times> string) list"
  rq_body :: "string option"
  rq_timeout :: nat

text \<open>\<open>prepareRequest\<close>. The fixed content type is the first operand of the spread and
  \<open>tool.apiConfig.headers\<close> the second; \<open>x || d\<close> on a number is \<open>d\<close> when \<open>x\<close> is
  absent or zero.\<close>

definition prepareRequest :: "js_env \<Rightarrow> api_tool \<Rightarrow> js_object \<Rightarrow> request_config" where
  "prepareRequest env tool params =
     (let hdrs = spread [(''Content-Type'', ''application/json'')]
                   (case headers (apiConfig tool) of None \<Rightarrow> [] | Some h \<Rightarrow> h);
          url = endpoint (apiConfig tool);
          tmo = (case timeout (apiConfig tool) of
                   None \<Rightarrow> 30000 | Some t \<Rightarrow> if t = 0 then 30000 else t)
      in if apiMethod (apiConfig tool) = GET
         then \<lparr>rq_url = url @ (if CHR ''?'' \<in> set url then ''&'' else ''?'') @
                         URLSearchParamsToString env
                           (map (\<lambda>(k, v). (k, ToString env v)) params),
               rq_method = apiMethod (apiConfig tool),
               rq_headers = hdrs,
               rq_body = None,
               rq_timeout = tmo\<rparr>
         else \<lparr>rq_url = url,
               rq_method = apiMethod (apiConfig tool),
               rq_headers = hdrs,
               rq_body = Some (JSONstringify env params),
               rq_timeout = tmo\<rparr>)"

text \<open>What one \<open>fetch\<close> does: it rejects (a network error, or the abort of the
  timeout), or it answers with a status, a status text and a body, whose \<open>json()\<close>
  can reject in turn.\<close>

datatype fetch_outcome =
    Rejected js_error
  | Response nat string "js_error + json"

record fetched =
  f_data :: json
  f_status :: nat

text \<open>The body of the \<open>try\<close> block of one attempt; \<open>response.ok\<close> is a status from
  200 to 299.\<close>

definition attemptFetch :: "fetch_outcome \<Rightarrow> js_error + fetched" where
  "attemptFetch out =
     (case out of
        Rejected e \<Rightarrow> Inl e
      | Response st stText body \<Rightarrow>
          if \<not> (200 \<le> st \<and> st \<le> 299)
          then Inl (Error (''HTTP '' @ natToString st @ '': '' @ stText))
          else (case body of Inl e \<Rightarrow> Inl e | Inr d \<Rightarrow> Inr \<lparr>f_data = d, f_status = st\<rparr>))"

text \<open>\<open>executeWithRetries\<close>: the \<open>for\<close> loop from \<open>attempt\<close> on. The network is a
  function from the number of the attempt to what \<open>fetch\<close> does then. The result
  comes with the number of \<open>fetch\<close> calls made and the backoff delays slept, in
  milliseconds and in order. \<open>lastError\<close> starts \<open>undefined\<close>.\<close>

function executeWithRetriesLoop ::
    "(nat \<Rightarrow> request_config \<Rightarrow> fetch_outcome) \<Rightarrow> request_config \<Rightarrow> nat \<Rightarrow> nat \<Rightarrow>
     js_error option \<Rightarrow> nat list \<Rightarrow> (js_error + fetched) \<times> nat \<times> nat list" where
  "executeWithRetriesLoop fetch requestConfig maxRetries attempt lastError delays =
     (if attempt \<le> maxRetries
      then (case attemptFetch (fetch attempt requestConfig) of
              Inr r \<Rightarrow> (Inr r, attempt, delays)
            | Inl e \<Rightarrow>
                executeWithRetriesLoop fetch requestConfig maxRetries (attempt + 1) (Some e)
                  (if attempt < maxRetries then delays @ [2 ^ attempt * 1000] else delays))
      else (Inl (case lastError of None \<Rightarrow> ThrownUndefined | Some e \<Rightarrow> e),
            attempt - 1, delays))"
  by pat_completeness auto
termination
  by (relation "measure (\<lambda>(fetch, requestConfig, maxRetries, attempt, lastError, delays).
                            Suc maxRetries - attempt)") auto

declare executeWithRetriesLoop.simps [simp del]

definition executeWithRetries ::
    "(nat \<Rightarrow> request_config \<Rightarrow> fetch_outcome) \<Rightarrow> request_config \<Rightarrow> nat \<Rightarrow>
     (js_error + fetched) \<times> nat \<times> nat list" where
  "executeWithRetries fetch requestConfig maxRetries =
     executeWithRetriesLoop fetch requestConfig maxRetries 1 None []"

text \<open>The surroundings of one \<open>executeTool\<close> call: the network, whether the usage
  store accepts a document, and the two readings of the clock.\<close>

record world =
  w_fetch :: "nat \<Rightarrow> request_config \<Rightarrow> fetch_outcome"
  w_saveUsage :: "tool_usage \<Rightarrow> bool"
  w_startTime :: real
  w_endTime :: real

text \<open>\<open>logToolUsage\<close>: one document with \<open>billing.paid = false\<close> is saved; a failure of
  the store is logged to the console and swallowed.\<close>

definition logToolUsage ::
    "world \<Rightarrow> tool_usage list \<Rightarrow> string \<Rightarrow> string \<Rightarrow> string \<Rightarrow> js_object \<Rightarrow> usage_response \<Rightarrow>
     string \<Rightarrow> tool_usage list" where
  "logToolUsage w ledger tid uid sid params response cost =
     (let usage = \<lparr>u_toolId = tid, u_userId = uid, u_sessionId = sid, u_parameters = params,
                    u_response = response,
                    u_billing = \<lparr>b_costInWei = cost, b_paid = False\<rparr>\<rparr>
      in if w_saveUsage w usage then ledger @ [usage] else ledger)"

text \<open>What an \<open>executeTool\<close> call leaves behind: the result it resolves to, the usage
  collection, the number of \<open>fetch\<close> calls and the backoff delays.\<close>

record execution =
  returned :: tool_execution_result
  usageLog :: "tool_usage list"
  fetchCalls :: nat
  sleeps :: "nat list"

definition errorMessage :: "js_error \<Rightarrow> string" where
  "errorMessage e = (case e of Error m \<Rightarrow> m | ThrownUndefined \<Rightarrow> ''Unknown error'')"

definition resultBilling :: "api_tool \<Rightarrow> result_billing" where
  "resultBilling tool =
     \<lparr>rb_costInWei = costInWei (pricing tool), rb_ethCost = ethCost (pricing tool)\<rparr>"

text \<open>The \<open>catch\<close> block of \<open>executeTool\<close>.\<close>

definition executeToolCatch ::
    "world \<Rightarrow> tool_usage list \<Rightarrow> api_tool \<Rightarrow> js_object \<Rightarrow> string \<Rightarrow> string \<Rightarrow> js_error \<Rightarrow>
     nat \<Rightarrow> nat list \<Rightarrow> execution" where
  "executeToolCatch w ledger tool params uid sid e calls slept =
     (let execTime = w_endTime w - w_startTime w;
          msg = errorMessage e
      in \<lparr>returned = \<lparr>success = False, data = None, error = Some msg, statusCode = None,
                       executionTime = execTime, res_toolId = toolId tool,
                       billing = resultBilling tool\<rparr>,
           usageLog = logToolUsage w ledger (toolId tool) uid sid params
                        \<lparr>r_success = False, r_data = None, r_error = Some msg,
                         r_statusCode = None, r_executionTime = execTime\<rparr>
                        (costInWei (pricing tool)),
           fetchCalls = calls,
           sleeps = slept\<rparr>)"

text \<open>\<open>tool.apiConfig.retries || 3\<close>.\<close>

definition retriesOrDefault :: "api_tool \<Rightarrow> nat" where
  "retriesOrDefault tool =
     (case retries (apiConfig tool) of None \<Rightarrow> 3 | Some n \<Rightarrow> if n = 0 then 3 else n)"

text \<open>\<open>executeTool\<close>. A non-empty list of validation messages returns at once, before
  the request is prepared and without a call of \<open>logToolUsage\<close>.\<close>

definition executeTool ::
    "js_env \<Rightarrow> world \<Rightarrow> tool_usage list \<Rightarrow> api_tool \<Rightarrow> js_object \<Rightarrow> string \<Rightarrow> string \<Rightarrow> execution" where
  "executeTool env w ledger tool params uid sid =
     (case validateParameters env tool params of
        Inl e \<Rightarrow> executeToolCatch w ledger tool params uid sid e 0 []
      | Inr errors \<Rightarrow>
          if errors \<noteq> []
          then \<lparr>returned = \<lparr>success = False, data = None,
                              error = Some (''Parameter validation failed: '' @ join '', '' errors),
                              statusCode = None,
                              executionTime = w_endTime w - w_startTime w,
                              res_toolId = toolId tool, billing = resultBilling tool\<rparr>,
                usageLog = ledger, fetchCalls = 0, sleeps = []\<rparr>
          else (case executeWithRetries (w_fetch w) (prepareRequest env tool params)
                       (retriesOrDefault tool) of
                  (Inl e, calls, slept) \<Rightarrow>
                    executeToolCatch w ledger tool params uid sid e calls slept
                | (Inr r, calls, slept) \<Rightarrow>
                    (let execTime = w_endTime w - w_startTime w
                     in \<lparr>returned = \<lparr>success = True, data = Some (f_data r), error = None,
                                      statusCode = Some (f_status r), executionTime = execTime,
                                      res_toolId = toolId tool, billing = resultBilling tool\<rparr>,
                          usageLog = logToolUsage w ledger (toolId tool) uid sid params
                                       \<lparr>r_success = True, r_data = Some (f_data r),
                                        r_error = None, r_statusCode = Some (f_status r),
                                        r_executionTime = execTime\<rparr>
                                       (costInWei (pricing tool)),
                          fetchCalls = calls, sleeps = slept\<rparr>)))"

section \<open>\<open>utils/vectorUtils.ts\<close>\<close>

text \<open>\<open>cosineSimilarity\<close>. The loop runs over the common indices of the two vectors,
  which have equal length where it is reached.\<close>

definition cosineSimilarity :: "real list \<Rightarrow> real list \<Rightarrow> js_error + real" where
  "cosineSimilarity vecA vecB =
     (if length vecA \<noteq> length vecB then Inl (Error ''Vectors must have the same length'')
      else if length vecA = 0 then Inr 0
      else (case fold (\<lambda>(a, b) (dotProduct, normA, normB).
                          (dotProduct + a * b, normA + a * a, normB + b * b))
                   (zip vecA vecB) (0, 0, 0) of
              (dotProduct, normA, normB) \<Rightarrow>
                if sqrt normA = 0 \<or> sqrt normB = 0 then Inr 0
                else Inr (dotProduct / (sqrt normA * sqrt normB))))"

text \<open>\<open>Array.prototype.sort(compare)\<close> is a stable sort: with a comparator that is
  consistent, the result is the one of inserting each element, from the last to the
  first, before the first element it does not have to follow.\<close>

fun insertBy :: "('a \<Rightarrow> 'a \<Rightarrow> real) \<Rightarrow> 'a \<Rightarrow> 'a list \<Rightarrow> 'a list" where
  "insertBy compare x [] = [x]"
| "insertBy compare x (y # ys) =
     (if compare x y \<le> 0 then x # y # ys else y # insertBy compare x ys)"

definition sortBy :: "('a \<Rightarrow> 'a \<Rightarrow> real) \<Rightarrow> 'a list \<Rightarrow> 'a list" where
  "sortBy compare xs = foldr (insertBy compare) xs []"





section \<open>The tool collection: the \<open>ApiTool\<close> model of \<open>models/apiTool.ts\<close>\<close>

text \<open>The collection is the list of its documents in insertion order. The
  collaborators of the discovery service are the embedding provider, whose
  \<open>embedQuery\<close> can reject, and the regular expression matching of the store
  (\<open>$regex\<close> with the option \<open>i\<close>).\<close>

record collaborators =
  embedQuery :: "string \<Rightarrow> js_error + real list"
  regexMatchI :: "string \<Rightarrow> string \<Rightarrow> bool"

text \<open>The validator of \<open>pricing.costInWei\<close>: \<open>/^\d+$/\<close>.\<close>

definition isWeiAmount :: "string \<Rightarrow> bool" where
  "isWeiAmount s = (s \<noteq> [] \<and> list_all (\<lambda>c. digitVal c \<noteq> None) s)"

text \<open>\<open>new ApiTool(fields)\<close> followed by the validation of \<open>save()\<close>, as the schema
  declares it: the \<open>required\<close> paths must be there (a required string must not be
  empty), a parameter type must be one of the five names, the price must be a wei
  amount; the declared defaults fill what is absent.\<close>

definition validParameter :: "tool_parameter \<Rightarrow> bool" where
  "validParameter p =
     (p_name p \<noteq> [] \<and> p_description p \<noteq> [] \<and>
      (case p_type p of TOther _ \<Rightarrow> False | _ \<Rightarrow> True))"

definition validationFailed :: js_error where
  "validationFailed = Error ''ApiTool validation failed''"

text \<open>The declared defaults: \<open>headers\<close> \<open>{}\<close>, \<open>timeout\<close> 30000, \<open>retries\<close> 3, the
  metadata flags true, \<open>createdAt\<close> and \<open>updatedAt\<close> the time of creation.\<close>

definition withDefaults ::
    "string \<Rightarrow> string \<Rightarrow> string \<Rightarrow> string \<Rightarrow> string \<Rightarrow> api_config \<Rightarrow> tool_parameter list \<Rightarrow>
     response_schema \<Rightarrow> pricing \<Rightarrow> tool_data \<Rightarrow> nat \<Rightarrow> api_tool" where
  "withDefaults tid uid nm ds cat cfg ps rs pr d now =
     \<lparr>toolId = tid, userId = uid, name = nm, description = ds, category = cat,
      apiConfig = cfg
        \<lparr>headers := Some (case headers cfg of None \<Rightarrow> [] | Some h \<Rightarrow> h),
         timeout := Some (case timeout cfg of None \<Rightarrow> 30000 | Some t \<Rightarrow> t),
         retries := Some (case retries cfg of None \<Rightarrow> 3 | Some r \<Rightarrow> r)\<rparr>,
      parameters = ps,
      responseSchema = rs,
      pricing = pr,
      metadata =
        (case d_metadata d of
           None \<Rightarrow> \<lparr>tags = [], version = ''1.0.0'', isActive = True, isPublic = True\<rparr>
         | Some m \<Rightarrow> m),
      embedding = d_embedding d,
      createdAt = (case d_createdAt d of None \<Rightarrow> now | Some t \<Rightarrow> t),
      updatedAt = (case d_updatedAt d of None \<Rightarrow> now | Some t \<Rightarrow> t)\<rparr>"

definition newApiTool :: "tool_data \<Rightarrow> nat \<Rightarrow> js_error + api_tool" where
  "newApiTool d now =
     (case d_toolId d of None \<Rightarrow> Inl validationFailed | Some tid \<Rightarrow>
      case d_userId d of None \<Rightarrow> Inl validationFailed | Some uid \<Rightarrow>
      case d_name d of None \<Rightarrow> Inl validationFailed | Some nm \<Rightarrow>
      case d_description d of None \<Rightarrow> Inl validationFailed | Some ds \<Rightarrow>
      case d_category d of None \<Rightarrow> Inl validationFailed | Some cat \<Rightarrow>
      case d_apiConfig d of None \<Rightarrow> Inl validationFailed | Some cfg \<Rightarrow>
      case d_responseSchema d of None \<Rightarrow> Inl validationFailed | Some rs \<Rightarrow>
      case d_pricing d of None \<Rightarrow> Inl validationFailed | Some pr \<Rightarrow>
        (let ps = (case d_parameters d of None \<Rightarrow> [] | Some ps \<Rightarrow> ps)
         in if tid \<noteq> [] \<and> uid \<noteq> [] \<and> nm \<noteq> [] \<and> ds \<noteq> [] \<and> cat \<noteq> [] \<and>
               endpoint cfg \<noteq> [] \<and> rs_structure rs \<noteq> JNull \<and> rs_description rs \<noteq> [] \<and>
               isWeiAmount (costInWei pr) \<and> list_all validParameter ps
            then Inr (withDefaults tid uid nm ds cat cfg ps rs pr d now)
            else Inl validationFailed))"

text \<open>\<open>tool.save()\<close> of a new document: \<open>toolId\<close> has a unique index.\<close>

definition saveTool :: "api_tool list \<Rightarrow> api_tool \<Rightarrow> js_error + api_tool list" where
  "saveTool store t =
     (if toolId t \<in> set (map toolId store)
      then Inl (Error ''E11000 duplicate key error'')
      else Inr (store @ [t]))"

section \<open>\<open>services/toolDiscovery.ts\<close>\<close>

text \<open>A template literal renders a field that is absent as \<open>undefined\<close>.\<close>

definition template :: "string option \<Rightarrow> string" where
  "template f = (case f of None \<Rightarrow> ''undefined'' | Some s \<Rightarrow> s)"

definition registerSearchText :: "tool_data \<Rightarrow> string" where
  "registerSearchText toolData =
     template (d_name toolData) @ '' '' @ template (d_description toolData) @ '' '' @
     template (d_category toolData) @ '' '' @
     template (map_option (\<lambda>ps. join '' '' (map p_description ps)) (d_parameters toolData))"

text \<open>\<open>registerApiTool\<close>, with the clock reading \<open>now\<close> and the random suffix \<open>rnd\<close> of
  the identifier \<open>tool_${Date.now()}_${...}\<close>. It returns the outcome and the collection. The embedding is
  awaited before the document is built; a rejection leaves the function there.\<close>

definition newToolId :: "nat \<Rightarrow> string \<Rightarrow> string" where
  "newToolId now rnd = ''tool_'' @ natToString now @ ''_'' @ rnd"

definition registerApiTool ::
    "collaborators \<Rightarrow> nat \<Rightarrow> string \<Rightarrow> api_tool list \<Rightarrow> string \<Rightarrow> tool_data \<Rightarrow>
     (js_error + api_tool) \<times> api_tool list" where
  "registerApiTool c now rnd store uid toolData =
     (case embedQuery c (registerSearchText toolData) of
        Inl e \<Rightarrow> (Inl e, store)
      | Inr emb \<Rightarrow>
          (case newApiTool
                  (toolData\<lparr>d_userId := Some uid, d_toolId := Some (newToolId now rnd),
                             d_embedding := Some emb, d_updatedAt := Some now\<rparr>) now of
             Inl e \<Rightarrow> (Inl e, store)
           | Inr tool \<Rightarrow>
               (case saveTool store tool of
                  Inl e \<Rightarrow> (Inl e, store)
                | Inr store' \<Rightarrow> (Inr tool, store'))))"

text \<open>The filters of a query on the collection, as the services build them.\<close>

record search_criteria =
  c_isActive :: "bool option"
  c_isPublic :: "bool option"
  c_category :: "string option"
  c_costLte :: "string option"
  c_tagsIn :: "string list option"
  c_userId :: "string option"
  c_toolId :: "string option"

text \<open>\<open>$lte\<close> between two strings is the store's comparison of strings: byte by
  byte, a proper prefix first.\<close>

fun stringLte :: "string \<Rightarrow> string \<Rightarrow> bool" where
  "stringLte [] bs = True"
| "stringLte (a # as) [] = False"
| "stringLte (a # as) (b # bs) =
     (if (of_char a :: nat) < of_char b then True
      else if (of_char b :: nat) < of_char a then False
      else stringLte as bs)"

definition holds :: "'a option \<Rightarrow> ('a \<Rightarrow> bool) \<Rightarrow> bool" where
  "holds criterion test = (case criterion of None \<Rightarrow> True | Some x \<Rightarrow> test x)"

definition matches :: "collaborators \<Rightarrow> search_criteria \<Rightarrow> api_tool \<Rightarrow> bool" where
  "matches c crit t =
     (holds (c_isActive crit) (\<lambda>b. isActive (metadata t) = b) \<and>
      holds (c_isPublic crit) (\<lambda>b. isPublic (metadata t) = b) \<and>
      holds (c_category crit) (\<lambda>p. regexMatchI c p (category t)) \<and>
      holds (c_costLte crit) (\<lambda>bound. stringLte (costInWei (pricing t)) bound) \<and>
      holds (c_tagsIn crit) (\<lambda>wanted. list_ex (\<lambda>tag. tag \<in> set wanted) (tags (metadata t))) \<and>
      holds (c_userId crit) (\<lambda>u. userId t = u) \<and>
      holds (c_toolId crit) (\<lambda>i. toolId t = i))"

definition noCriteria :: search_criteria where
  "noCriteria = \<lparr>c_isActive = None, c_isPublic = None, c_category = None, c_costLte = None,
                 c_tagsIn = None, c_userId = None, c_toolId = None\<rparr>"

text \<open>\<open>ApiTool.find(criteria)\<close> and \<open>ApiTool.findOne(criteria)\<close>.\<close>

definition findTools :: "collaborators \<Rightarrow> api_tool list \<Rightarrow> search_criteria \<Rightarrow> api_tool list" where
  "findTools c store crit = filter (matches c crit) store"

definition findOneTool :: "collaborators \<Rightarrow> api_tool list \<Rightarrow> search_criteria \<Rightarrow> api_tool option" where
  "findOneTool c store crit = List.find (matches c crit) store"

text \<open>\<open>query.trim()\<close> removes leading and trailing white space (the ASCII part of
  it here).\<close>

definition isSpace :: "char \<Rightarrow> bool" where
  "isSpace ch = (ch \<in> set [CHR '' '', CHR 0x09, CHR 0x0A, CHR 0x0B, CHR 0x0C, CHR 0x0D])"

definition trim :: "string \<Rightarrow> string" where
  "trim s = rev (dropWhile isSpace (rev (dropWhile isSpace s)))"

record tool_search_filters =
  f_category :: "string option"
  f_maxCost :: "nat option"
  f_tags :: "string list option"
  f_userId :: "string option"

text \<open>The criteria \<open>searchToolsGlobally\<close> builds from its filters. \<open>maxCost\<close> is turned
  into its decimal string and handed to \<open>$lte\<close> on the string field
  \<open>pricing.costInWei\<close> (\<open>maxCost\<close> below \<open>10^21\<close>, where \<open>toString\<close> writes all
  digits).\<close>

definition globalCriteria :: "tool_search_filters \<Rightarrow> search_criteria" where
  "globalCriteria filters =
     (let byOwner = (case f_userId filters of None \<Rightarrow> False | Some u \<Rightarrow> u \<noteq> [])
      in \<lparr>c_isActive = Some True,
           c_isPublic = (if byOwner then None else Some True),
           c_category = (case f_category filters of
                           None \<Rightarrow> None | Some cat \<Rightarrow> if cat = [] then None else Some cat),
           c_costLte = map_option natToString (f_maxCost filters),
           c_tagsIn = (case f_tags filters of
                         None \<Rightarrow> None | Some ts \<Rightarrow> if length ts > 0 then Some ts else None),
           c_userId = (if byOwner then f_userId filters else None),
           c_toolId = None\<rparr>)"

text \<open>The scoring of the candidates that carry a non-empty embedding; an exception of
  \<open>cosineSimilarity\<close> ends the search.\<close>

fun scoreTools :: "real list \<Rightarrow> api_tool list \<Rightarrow> js_error + (api_tool \<times> real) list" where
  "scoreTools queryEmbedding [] = Inr []"
| "scoreTools queryEmbedding (t # ts) =
     (case embedding t of
        None \<Rightarrow> scoreTools queryEmbedding ts
      | Some emb \<Rightarrow>
          if length emb > 0
          then (case cosineSimilarity queryEmbedding emb of
                  Inl e \<Rightarrow> Inl e
                | Inr s \<Rightarrow>
                    (case scoreTools queryEmbedding ts of
                       Inl e \<Rightarrow> Inl e
                     | Inr rest \<Rightarrow> Inr ((t, s) # rest)))
          else scoreTools queryEmbedding ts)"

definition searchToolsGlobally ::
    "collaborators \<Rightarrow> api_tool list \<Rightarrow> string \<Rightarrow> tool_search_filters \<Rightarrow> nat \<Rightarrow>
     js_error + api_tool list" where
  "searchToolsGlobally c store query filters limit =
     (if trim query = [] then Inl (Error ''Query must be a non-empty string'')
      else (case embedQuery c (trim query) of
              Inl e \<Rightarrow> Inl e
            | Inr queryEmbedding \<Rightarrow>
                (case scoreTools queryEmbedding (findTools c store (globalCriteria filters)) of
                   Inl e \<Rightarrow> Inl e
                 | Inr toolsWithScores \<Rightarrow>
                     Inr (map fst (take limit
                            (sortBy (\<lambda>a b. snd b - snd a) toolsWithScores))))))"

text \<open>\<open>getToolsByCategory\<close>: the same \<open>$lte\<close> on the price string; the query sorts by
  \<open>createdAt\<close>, newest first, then applies the limit (a limit of 0 is none).\<close>

definition getToolsByCategory ::
    "collaborators \<Rightarrow> api_tool list \<Rightarrow> string \<Rightarrow> nat option \<Rightarrow> nat \<Rightarrow> api_tool list" where
  "getToolsByCategory c store cat maxCost limit =
     (let found = findTools c store
                    (noCriteria\<lparr>c_isActive := Some True, c_isPublic := Some True,
                                 c_category := Some cat,
                                 c_costLte := map_option natToString maxCost\<rparr>);
          newestFirst = sortBy (\<lambda>a b. real (createdAt b) - real (createdAt a)) found
      in if limit = 0 then newestFirst else take limit newestFirst)"

text \<open>\<open>getToolById\<close>: \<open>findOne({ toolId, "metadata.isActive": true })\<close>.\<close>

definition getToolById :: "collaborators \<Rightarrow> api_tool list \<Rightarrow> string \<Rightarrow> api_tool option" where
  "getToolById c store tid =
     findOneTool c store (noCriteria\<lparr>c_toolId := Some tid, c_isActive := Some True\<rparr>)"

text \<open>The update document \<open>{ ...updates, updatedAt }\<close> applied as \<open>$set\<close>: every field
  that is there replaces the stored one.\<close>

definition applyUpdates :: "tool_data \<Rightarrow> api_tool \<Rightarrow> api_tool" where
  "applyUpdates u t =
     \<lparr>toolId = (case d_toolId u of None \<Rightarrow> toolId t | Some x \<Rightarrow> x),
      userId = (case d_userId u of None \<Rightarrow> userId t | Some x \<Rightarrow> x),
      name = (case d_name u of None \<Rightarrow> name t | Some x \<Rightarrow> x),
      description = (case d_description u of None \<Rightarrow> description t | Some x \<Rightarrow> x),
      category = (case d_category u of None \<Rightarrow> category t | Some x \<Rightarrow> x),
      apiConfig = (case d_apiConfig u of None \<Rightarrow> apiConfig t | Some x \<Rightarrow> x),
      parameters = (case d_parameters u of None \<Rightarrow> parameters t | Some x \<Rightarrow> x),
      responseSchema = (case d_responseSchema u of None \<Rightarrow> responseSchema t | Some x \<Rightarrow> x),
      pricing = (case d_pricing u of None \<Rightarrow> pricing t | Some x \<Rightarrow> x),
      metadata = (case d_metadata u of None \<Rightarrow> metadata t | Some x \<Rightarrow> x),
      embedding = (case d_embedding u of None \<Rightarrow> embedding t | Some x \<Rightarrow> Some x),
      createdAt = (case d_createdAt u of None \<Rightarrow> createdAt t | Some x \<Rightarrow> x),
      updatedAt = (case d_updatedAt u of None \<Rightarrow> updatedAt t | Some x \<Rightarrow> x)\<rparr>"

text \<open>\<open>findOneAndUpdate({ toolId }, update, { new: true })\<close> and
  \<open>updateOne({ toolId }, update)\<close>: the first document with the identifier is
  replaced by its update (\<open>updateFirst\<close> also tells whether that changed it); the
  unique index on \<open>toolId\<close> refuses an update that would give the identifier of
  another document.\<close>

fun updateFirst :: "string \<Rightarrow> (api_tool \<Rightarrow> api_tool) \<Rightarrow> api_tool list \<Rightarrow> bool \<times> api_tool list" where
  "updateFirst tid f [] = (False, [])"
| "updateFirst tid f (t # ts) =
     (if toolId t = tid then (f t \<noteq> t, f t # ts)
      else (case updateFirst tid f ts of (modified, ts') \<Rightarrow> (modified, t # ts')))"

definition findOneAndUpdate ::
    "api_tool list \<Rightarrow> string \<Rightarrow> (api_tool \<Rightarrow> api_tool) \<Rightarrow>
     (js_error + api_tool option) \<times> api_tool list" where
  "findOneAndUpdate store tid f =
     (case List.find (\<lambda>t. toolId t = tid) store of
        None \<Rightarrow> (Inr None, store)
      | Some t \<Rightarrow>
          if toolId (f t) \<noteq> tid \<and> toolId (f t) \<in> set (map toolId store)
          then (Inl (Error ''E11000 duplicate key error''), store)
          else (Inr (Some (f t)), snd (updateFirst tid f store)))"

text \<open>A string in a condition is true when it is there and not empty.\<close>

definition truthy :: "string option \<Rightarrow> bool" where
  "truthy f = (case f of None \<Rightarrow> False | Some s \<Rightarrow> s \<noteq> [])"

definition updateSearchText :: "tool_data \<Rightarrow> string" where
  "updateSearchText updates =
     template (d_name updates) @ '' '' @ template (d_description updates) @ '' '' @
     template (d_category updates)"

text \<open>\<open>updateTool\<close>: the embedding is regenerated, into \<open>updates.embedding\<close>, when one
  of \<open>updates.name\<close>, \<open>updates.description\<close>, \<open>updates.category\<close> is true.\<close>

definition updateTool ::
    "collaborators \<Rightarrow> nat \<Rightarrow> api_tool list \<Rightarrow> string \<Rightarrow> tool_data \<Rightarrow>
     (js_error + api_tool option) \<times> api_tool list" where
  "updateTool c now store tid updates =
     (if truthy (d_name updates) \<or> truthy (d_description updates) \<or> truthy (d_category updates)
      then (case embedQuery c (updateSearchText updates) of
              Inl e \<Rightarrow> (Inl e, store)
            | Inr emb \<Rightarrow>
                findOneAndUpdate store tid
                  (applyUpdates (updates\<lparr>d_embedding := Some emb, d_updatedAt := Some now\<rparr>)))
      else findOneAndUpdate store tid (applyUpdates (updates\<lparr>d_updatedAt := Some now\<rparr>)))"

text \<open>\<open>deactivateTool\<close>: \<open>result.modifiedCount > 0\<close> when a document was found and
  the update changed it.\<close>

definition deactivate :: "nat \<Rightarrow> api_tool \<Rightarrow> api_tool" where
  "deactivate now t = t\<lparr>metadata := (metadata t)\<lparr>isActive := False\<rparr>, updatedAt := now\<rparr>"

definition deactivateTool :: "nat \<Rightarrow> api_tool list \<Rightarrow> string \<Rightarrow> bool \<times> api_tool list" where
  "deactivateTool now store tid =
     updateFirst tid (deactivate now) store"

section \<open>The ranking order and example data\<close>


text \<open>A runtime, a registered tool and a network for the concrete runs below.\<close>

definition sampleEnv :: js_env where
  "sampleEnv =
     \<lparr>ToNumber = (\<lambda>v. None),
      ToString = (\<lambda>v. ''[object Object]''),
      NumberToString = (\<lambda>x. ''0''),
      RegExpTest = (\<lambda>p s. Some True),
      URLSearchParamsToString = (\<lambda>kvs. join ''&'' (map (\<lambda>(k, v). k @ ''='' @ v) kvs)),
      JSONstringify = (\<lambda>obj. ''{}'')\<rparr>"

definition sampleTool :: api_tool where
  "sampleTool =
     \<lparr>toolId = ''tool_1'', userId = ''alice'', name = ''Weather'',
      description = ''Current weather of a city'', category = ''weather'',
      apiConfig = \<lparr>endpoint = ''https://api.example.com/weather'', apiMethod = POST,
                    headers = Some [], timeout = Some 30000, retries = Some 3\<rparr>,
      parameters = [\<lparr>p_name = ''q'', p_type = TString, p_required = True,
                      p_description = ''City'', p_validation = None\<rparr>],
      responseSchema = \<lparr>rs_structure = JObj [], rs_description = ''The weather''\<rparr>,
      pricing = \<lparr>costInWei = ''1000000000000000'', ethCost = Some ''0.001''\<rparr>,
      metadata = \<lparr>tags = [''weather''], version = ''1.0.0'', isActive = True, isPublic = True\<rparr>,
      embedding = Some [1, 0], createdAt = 1, updatedAt = 1\<rparr>"

text \<open>An endpoint that answers every request with HTTP 500, and a usage store that
  accepts every document.\<close>

definition always500 :: world where
  "always500 =
     \<lparr>w_fetch = (\<lambda>n rc. Response 500 ''Internal Server Error'' (Inr JNull)),
      w_saveUsage = (\<lambda>usage. True), w_startTime = 0, w_endTime = 6250\<rparr>"

text \<open>An endpoint that is unavailable once and then answers.\<close>

definition flaky :: world where
  "flaky =
     \<lparr>w_fetch = (\<lambda>n rc. if n = 1 then Response 503 ''Service Unavailable'' (Inr JNull)
                         else Response 200 ''OK'' (Inr (JObj [(''temp'', JNum 21)]))),
      w_saveUsage = (\<lambda>usage. True), w_startTime = 0, w_endTime = 2100\<rparr>"

text \<open>The tool with a \<open>Content-Type\<close> header of its own.\<close>

definition plainTextTool :: api_tool where
  "plainTextTool =
     sampleTool\<lparr>apiConfig := (apiConfig sampleTool)
                   \<lparr>headers := Some [(''Content-Type'', ''text/plain'')]\<rparr>\<rparr>"

text \<open>The tool with \<open>retries: 0\<close>.\<close>

definition zeroRetriesTool :: api_tool where
  "zeroRetriesTool = sampleTool\<lparr>apiConfig := (apiConfig sampleTool)\<lparr>retries := Some 0\<rparr>\<rparr>"

text \<open>A tool whose parameter declares bounds and no \<open>enum\<close>.\<close>

definition countParameter :: tool_parameter where
  "countParameter =
     \<lparr>p_name = ''count'', p_type = TNumber, p_required = True, p_description = ''How many'',
      p_validation = Some \<lparr>v_min = Some 1, v_max = Some 10, v_pattern = None, v_enum = None\<rparr>\<rparr>"

definition boundedTool :: api_tool where
  "boundedTool = sampleTool\<lparr>parameters := [countParameter]\<rparr>"

text \<open>Collaborators, tools and patches for the concrete runs of the discovery
  service.\<close>

definition sampleCollaborators :: collaborators where
  "sampleCollaborators =
     \<lparr>embedQuery = (\<lambda>text. Inr [0, 1]), regexMatchI = (\<lambda>pattern subject. pattern = subject)\<rparr>"

definition embeddingDown :: collaborators where
  "embeddingDown =
     \<lparr>embedQuery = (\<lambda>text. Inl (Error ''Embedding service unavailable'')),
      regexMatchI = (\<lambda>pattern subject. pattern = subject)\<rparr>"

definition cheapTool :: api_tool where
  "cheapTool = sampleTool\<lparr>toolId := ''tool_9'', pricing := \<lparr>costInWei = ''9'', ethCost = None\<rparr>\<rparr>"

definition dearTool :: api_tool where
  "dearTool = sampleTool\<lparr>toolId := ''tool_100'',
                          pricing := \<lparr>costInWei = ''100'', ethCost = None\<rparr>\<rparr>"

definition maxCost20 :: tool_search_filters where
  "maxCost20 = \<lparr>f_category = None, f_maxCost = Some 20, f_tags = None, f_userId = None\<rparr>"

definition retiredTool :: api_tool where
  "retiredTool =
     sampleTool\<lparr>toolId := ''tool_2'',
                 metadata := \<lparr>tags = [], version = ''1.0.0'', isActive = False, isPublic = True\<rparr>\<rparr>"

definition sampleToolData :: tool_data where
  "sampleToolData =
     \<lparr>d_toolId = None, d_userId = None, d_name = Some ''Weather'',
      d_description = Some ''Current weather of a city'', d_category = Some ''weather'',
      d_apiConfig = Some (apiConfig sampleTool), d_parameters = Some (parameters sampleTool),
      d_responseSchema = Some (responseSchema sampleTool), d_pricing = Some (pricing sampleTool),
      d_metadata = None, d_embedding = None, d_createdAt = None, d_updatedAt = None\<rparr>"

definition noUpdates :: tool_data where
  "noUpdates =
     \<lparr>d_toolId = None, d_userId = None, d_name = None, d_description = None, d_category = None,
      d_apiConfig = None, d_parameters = None, d_responseSchema = None, d_pricing = None,
      d_metadata = None, d_embedding = None, d_createdAt = None, d_updatedAt = None\<rparr>"

definition pricingUpdate :: tool_data where
  "pricingUpdate = noUpdates\<lparr>d_pricing := Some \<lparr>costInWei = ''5'', ethCost = None\<rparr>\<rparr>"

definition descriptionUpdate :: tool_data where
  "descriptionUpdate = noUpdates\<lparr>d_description := Some ''Rain radar''\<rparr>"

definition emptyNameUpdate :: tool_data where
  "emptyNameUpdate = noUpdates\<lparr>d_name := Some []\<rparr>"

definition embeddingUpdate :: tool_data where
  "embeddingUpdate = noUpdates\<lparr>d_embedding := Some [5]\<rparr>"

section \<open>Display of prices (\<open>EthUtils.formatWei\<close>)\<close>

lemma BigInt_1e15: "BigInt ''1000000000000000'' = Some 1000000000000000"
  by (simp add: BigInt_def digitVal_def)

lemma BigInt_2e18: "BigInt ''2000000000000000000'' = Some 2000000000000000000"
  by (simp add: BigInt_def digitVal_def)

lemma BigInt_500: "BigInt ''500'' = Some 500"
  by (simp add: BigInt_def digitVal_def)

lemma natToString_2000000: "natToString 2000000 = ''2000000''"
  by (simp add: natToString.simps digitChar_def)

lemma natToString_1000: "natToString 1000 = ''1000''"
  by (simp add: natToString.simps digitChar_def)

lemma natToString_500: "natToString 500 = ''500''"
  by (simp add: natToString.simps digitChar_def)

lemma toFixed_2_6: "toFixed 2 6 = ''2.000000''"
  by (simp add: toFixed_def toFixedNonneg_def natToString_2000000 padZeros_def)

lemma toFixed_1_3: "toFixed 1 3 = ''1.000''"
  by (simp add: toFixed_def toFixedNonneg_def natToString_1000 padZeros_def)

lemma stripTrailingZeros_2: "stripTrailingZeros ''2.000000'' = ''2''"
  by (simp add: stripTrailingZeros_def)

lemma formatWei_mETH: "formatWei ''1000000000000000'' = Some ''1.000 mETH''"
  by (simp add: formatWei_def weiToEth_def BigInt_1e15 toFixed_1_3)

lemma formatWei_ETH: "formatWei ''2000000000000000000'' = Some ''2 ETH''"
  by (simp add: formatWei_def weiToEthString_def weiToEth_def BigInt_2e18 toFixed_2_6
        stripTrailingZeros_2)

lemma formatWei_wei: "formatWei ''500'' = Some ''500 wei''"
  by (simp add: formatWei_def weiToEth_def BigInt_500)

text \<open>Claim C8, as the code has it: \<open>formatWei\<close> maps \<open>"1000000000000000"\<close> to
  \<open>"1.000 mETH"\<close>, \<open>"2000000000000000000"\<close> to \<open>"2 ETH"\<close> (the trailing zeros go
  and the point with them) and \<open>"500"\<close> to \<open>"500 wei"\<close>.\<close>

theorem formatWei_display:
  "formatWei ''1000000000000000'' = Some ''1.000 mETH'' \<and>
   formatWei ''2000000000000000000'' = Some ''2 ETH'' \<and>
   formatWei ''500'' = Some ''500 wei''"
  by (simp only: formatWei_mETH formatWei_ETH formatWei_wei simp_thms)

text \<open>Claim C8 as stated expects \<open>"2.0 ETH"\<close> for two ether; the formatter does not
  produce it.\<close>

theorem formatWei_two_ether_not_2_0:
  "formatWei ''2000000000000000000'' \<noteq> Some ''2.0 ETH''"
  by (simp add: formatWei_ETH)

section \<open>The execution engine (\<open>ToolExecutorService\<close>)\<close>

subsection \<open>Request headers\<close>

lemma map_of_spread:
  "map_of (spread base extra) k =
     (case map_of (rev extra) k of None \<Rightarrow> map_of base k | Some v \<Rightarrow> Some v)"
  unfolding spread_def
proof (induction extra arbitrary: base)
  case Nil
  then show ?case by simp
next
  case (Cons kv extra)
  obtain k' v' where kv: "kv = (k', v')" by (cases kv)
  show ?case
    by (simp add: kv Cons.IH update_conv' map_add_def split: option.splits)
qed

lemma rq_headers_prepareRequest:
  "rq_headers (prepareRequest env tool params) =
     spread [(''Content-Type'', ''application/json'')]
       (case headers (apiConfig tool) of None \<Rightarrow> [] | Some h \<Rightarrow> h)"
  by (simp add: prepareRequest_def Let_def)

text \<open>Claim C2, as the code has it: the request carries
  \<open>Content-Type: application/json\<close> when \<open>apiConfig.headers\<close> declares no
  \<open>Content-Type\<close>, and the value the tool declares when it does (the last one,
  should the list repeat the key).\<close>

theorem prepareRequest_content_type:
  "map_of (rq_headers (prepareRequest env tool params)) ''Content-Type'' =
     (case map_of (rev (case headers (apiConfig tool) of None \<Rightarrow> [] | Some h \<Rightarrow> h))
             ''Content-Type'' of
        None \<Rightarrow> Some ''application/json''
      | Some declared \<Rightarrow> Some declared)"
  by (simp add: rq_headers_prepareRequest map_of_spread split: option.splits)

text \<open>Claim C2 as stated fails for a tool that declares \<open>Content-Type: text/plain\<close>:
  the request carries the declared value.\<close>

theorem prepareRequest_content_type_overridden:
  "headers (apiConfig plainTextTool) = Some [(''Content-Type'', ''text/plain'')] \<and>
   rq_headers (prepareRequest sampleEnv plainTextTool [(''q'', JStr ''Paris'')]) =
     [(''Content-Type'', ''text/plain'')] \<and>
   map_of (rq_headers (prepareRequest sampleEnv plainTextTool [(''q'', JStr ''Paris'')]))
     ''Content-Type'' \<noteq> Some ''application/json''"
  by (simp add: rq_headers_prepareRequest plainTextTool_def sampleTool_def spread_def)

subsection \<open>Validation\<close>

lemma validateConstraints_no_enum:
  "v_enum vd = None \<Longrightarrow> \<exists>e. validateConstraints env paramName v vd = Inl e"
  by (simp add: validateConstraints_def Let_def split: sum.splits)

lemma validateParametersLoop_throws:
  assumes "param \<in> set ps" and "p_validation param = Some vd" and "v_enum vd = None"
    and "map_of params (p_name param) = Some v" and "v \<noteq> JNull"
  shows "\<exists>e. validateParametersLoop env ps params errors = Inl e"
  using assms(1)
proof (induction ps arbitrary: errors)
  case Nil
  then show ?case by simp
next
  case (Cons p ps)
  show ?case
  proof (cases "p = param")
    case True
    obtain e where "validateConstraints env (p_name param) v vd = Inl e"
      using validateConstraints_no_enum [OF assms(3)] by blast
    with True assms(2,4,5) show ?thesis
      by (cases v) (simp_all add: Let_def)
  next
    case False
    with Cons.prems have "param \<in> set ps" by simp
    then have ih: "\<And>errs. \<exists>e. validateParametersLoop env ps params errs = Inl e"
      using Cons.IH by blast
    show ?thesis
      using ih by (simp add: Let_def split: option.splits json.splits sum.splits)
  qed
qed

text \<open>Claim C9: when some declared parameter has a \<open>validation\<close> object without
  \<open>enum\<close> and the caller supplies a value for it that is not \<open>null\<close>, validation
  throws, whatever the value; \<open>executeTool\<close> resolves to a failure and no \<open>fetch\<close>
  is made.\<close>

theorem executeTool_missing_enum_throws:
  assumes "param \<in> set (parameters tool)"
    and "p_validation param = Some vd" and "v_enum vd = None"
    and "map_of params (p_name param) = Some v" and "v \<noteq> JNull"
  shows "(\<exists>e. validateParameters env tool params = Inl e) \<and>
         success (returned (executeTool env w ledger tool params uid sid)) = False \<and>
         fetchCalls (executeTool env w ledger tool params uid sid) = 0 \<and>
         sleeps (executeTool env w ledger tool params uid sid) = []"
proof -
  obtain e where e: "validateParameters env tool params = Inl e"
    using validateParametersLoop_throws [OF assms] unfolding validateParameters_def by blast
  then show ?thesis
    by (simp add: executeTool_def executeToolCatch_def Let_def)
qed

theorem executeTool_missing_enum_throws_witness:
  "validateParameters sampleEnv boundedTool [(''count'', JNum 5)] =
     Inl enumTypeError \<and>
   success (returned (executeTool sampleEnv always500 [] boundedTool [(''count'', JNum 5)]
                        ''bob'' ''session-1'')) = False \<and>
   fetchCalls (executeTool sampleEnv always500 [] boundedTool [(''count'', JNum 5)]
                 ''bob'' ''session-1'') = 0"
proof -
  have p: "countParameter \<in> set (parameters boundedTool)"
    by (simp add: boundedTool_def)
  have vd: "p_validation countParameter =
              Some \<lparr>v_min = Some 1, v_max = Some 10, v_pattern = None, v_enum = None\<rparr>"
    by (simp add: countParameter_def)
  have en: "v_enum \<lparr>v_min = Some 1, v_max = Some 10, v_pattern = None, v_enum = None\<rparr> = None"
    by simp
  have v: "map_of [(''count'', JNum 5)] (p_name countParameter) = Some (JNum 5)"
    by (simp add: countParameter_def)
  have nn: "JNum 5 \<noteq> JNull" by simp
  have ev: "validateParameters sampleEnv boundedTool [(''count'', JNum 5)] =
     Inl enumTypeError"
    by (simp add: validateParameters_def boundedTool_def countParameter_def
          validateConstraints_def patternErrors_def jsLess_def jsGreater_def numberOf_def)
  show ?thesis
    using executeTool_missing_enum_throws [OF p vd en v nn, of sampleEnv always500 "[]"
            "''bob''" "''session-1''"] ev
    by simp
qed

subsection \<open>Usage records\<close>

lemma validateParameters_sample_missing:
  "validateParameters sampleEnv sampleTool [] =
     Inr [''Required parameter '' @ apostrophe @ ''q'' @ apostrophe @ '' is missing'']"
  by (simp add: validateParameters_def sampleTool_def)

text \<open>Claim C1 at a call without the required parameter \<open>q\<close>: \<open>executeTool\<close> returns
  the validation failure, makes no \<open>fetch\<close>, and the usage collection stays empty,
  where the claim expects one record with \<open>billing.paid = false\<close>.\<close>

theorem executeTool_validation_failure_writes_no_usage:
  "returned (executeTool sampleEnv always500 [] sampleTool [] ''bob'' ''session-1'') =
     \<lparr>success = False, data = None,
      error = Some (''Parameter validation failed: Required parameter '' @ apostrophe @ ''q'' @
                    apostrophe @ '' is missing''),
      statusCode = None, executionTime = 6250, res_toolId = ''tool_1'',
      billing = \<lparr>rb_costInWei = ''1000000000000000'', rb_ethCost = Some ''0.001''\<rparr>\<rparr> \<and>
   usageLog (executeTool sampleEnv always500 [] sampleTool [] ''bob'' ''session-1'') = [] \<and>
   fetchCalls (executeTool sampleEnv always500 [] sampleTool [] ''bob'' ''session-1'') = 0"
  by (simp add: executeTool_def validateParameters_sample_missing resultBilling_def)
     (simp add: sampleTool_def always500_def)


subsection \<open>Retries and backoff\<close>

lemma executeWithRetriesLoop_all_fail:
  assumes fails: "\<And>n. attemptFetch (fetch n rc) = Inl (err n)"
  shows "attempt \<le> maxRetries \<Longrightarrow>
         executeWithRetriesLoop fetch rc maxRetries attempt lastError delays =
           (Inl (err maxRetries), maxRetries,
            delays @ map (\<lambda>k. 2 ^ k * 1000) [attempt..<maxRetries])"
proof (induction "maxRetries - attempt" arbitrary: attempt lastError delays)
  case 0
  then have eq: "attempt = maxRetries" by simp
  show ?case
    by (subst executeWithRetriesLoop.simps, subst executeWithRetriesLoop.simps)
       (simp add: eq fails)
next
  case (Suc d)
  then have lt: "attempt < maxRetries" and d: "d = maxRetries - (attempt + 1)"
    and le: "attempt + 1 \<le> maxRetries" by simp_all
  have step: "executeWithRetriesLoop fetch rc maxRetries attempt lastError delays =
        executeWithRetriesLoop fetch rc maxRetries (attempt + 1) (Some (err attempt))
          (delays @ [2 ^ attempt * 1000])"
    by (subst executeWithRetriesLoop.simps) (simp add: fails lt less_imp_le)
  show ?case
    unfolding step Suc.hyps(1) [OF d le]
    using lt by (simp add: upt_conv_Cons)
qed

lemma executeWithRetries_all_fail:
  assumes "\<And>n. attemptFetch (fetch n rc) = Inl (err n)"
  shows "executeWithRetries fetch rc maxRetries =
           (Inl (if maxRetries = 0 then ThrownUndefined else err maxRetries), maxRetries,
            map (\<lambda>n. 2 ^ (n - 1) * 1000) [2..<Suc maxRetries])"
proof (cases "maxRetries = 0")
  case True
  then show ?thesis
    unfolding executeWithRetries_def
    by (subst executeWithRetriesLoop.simps) simp
next
  case False
  then have le: "1 \<le> maxRetries" by simp
  have shift: "map (\<lambda>n. 2 ^ (n - 1) * 1000) [2..<Suc maxRetries] =
               map (\<lambda>k. 2 ^ k * (1000::nat)) [1..<maxRetries]"
  proof -
    have "[2..<Suc maxRetries] = map Suc [1..<maxRetries]"
      by (metis Suc_1 map_Suc_upt numeral_2_eq_2)
    then show ?thesis by (simp add: comp_def)
  qed
  have "executeWithRetriesLoop fetch rc maxRetries 1 None [] =
          (Inl (err maxRetries), maxRetries, [] @ map (\<lambda>k. 2 ^ k * 1000) [1..<maxRetries])"
    using assms le by (rule executeWithRetriesLoop_all_fail)
  then show ?thesis
    unfolding executeWithRetries_def shift using False by (simp del: upt_Suc)
qed

lemma retriesOrDefault_cases:
  "retriesOrDefault tool =
     (case retries (apiConfig tool) of None \<Rightarrow> 3 | Some n \<Rightarrow> if 1 \<le> n then n else 3)"
  by (simp add: retriesOrDefault_def split: option.splits)

lemma retriesOrDefault_pos: "0 < retriesOrDefault tool"
  by (simp add: retriesOrDefault_def split: option.splits)

lemma executeTool_all_fail:
  assumes valid: "validateParameters env tool params = Inr []"
    and fails: "\<And>n. attemptFetch (w_fetch w n (prepareRequest env tool params)) = Inl (err n)"
  shows "executeTool env w ledger tool params uid sid =
           executeToolCatch w ledger tool params uid sid (err (retriesOrDefault tool))
             (retriesOrDefault tool)
             (map (\<lambda>n. 2 ^ (n - 1) * 1000) [2..<Suc (retriesOrDefault tool)])"
  using retriesOrDefault_pos [of tool]
  by (simp add: executeTool_def valid executeWithRetries_all_fail [of "w_fetch w", OF fails]
           del: upt_Suc)

lemma validateParameters_sample_Paris:
  "validateParameters sampleEnv (sampleTool\<lparr>apiConfig := cfg\<rparr>) [(''q'', JStr ''Paris'')] = Inr []"
  by (simp add: validateParameters_def sampleTool_def)

lemma attemptFetch_always500:
  "attemptFetch (w_fetch always500 n rc) = Inl (Error ''HTTP 500: Internal Server Error'')"
  by (simp add: attemptFetch_def always500_def natToString_500)

text \<open>Claim C4, as the code has it. Let every attempt of an execution fail (a rejected
  \<open>fetch\<close>, a status outside 200..299, or a body that does not parse), with error
  \<open>err n\<close> at attempt \<open>n\<close>, and let \<open>m\<close> be \<open>apiConfig.retries\<close>, or 3 when that is
  absent or 0. Then exactly \<open>m\<close> attempts are made, the delay slept before attempt
  \<open>n\<close>, for \<open>n\<close> from 2 to \<open>m\<close>, is \<open>2^(n-1)\<close> seconds, and the result is the
  failure that carries the message of the last error.\<close>

theorem executeTool_retry_schedule:
  assumes valid: "validateParameters env tool params = Inr []"
    and fails: "\<And>n. attemptFetch (w_fetch w n (prepareRequest env tool params)) = Inl (err n)"
    and m: "m = (case retries (apiConfig tool) of
                   None \<Rightarrow> 3 | Some n \<Rightarrow> if 1 \<le> n then n else 3)"
  shows "fetchCalls (executeTool env w ledger tool params uid sid) = m \<and>
         sleeps (executeTool env w ledger tool params uid sid) =
           map (\<lambda>n. 2 ^ (n - 1) * 1000) [2..<Suc m] \<and>
         success (returned (executeTool env w ledger tool params uid sid)) = False \<and>
         error (returned (executeTool env w ledger tool params uid sid)) =
           Some (errorMessage (err m))"
  unfolding executeTool_all_fail [OF valid fails] m retriesOrDefault_cases [symmetric]
  by (simp add: executeToolCatch_def Let_def del: upt_Suc)

theorem executeTool_retry_schedule_witness:
  "retries (apiConfig sampleTool) = Some 3 \<and>
   fetchCalls (executeTool sampleEnv always500 [] sampleTool [(''q'', JStr ''Paris'')]
                 ''bob'' ''session-1'') = 3 \<and>
   sleeps (executeTool sampleEnv always500 [] sampleTool [(''q'', JStr ''Paris'')]
             ''bob'' ''session-1'') = [2000, 4000] \<and>
   success (returned (executeTool sampleEnv always500 [] sampleTool [(''q'', JStr ''Paris'')]
                        ''bob'' ''session-1'')) = False \<and>
   error (returned (executeTool sampleEnv always500 [] sampleTool [(''q'', JStr ''Paris'')]
                      ''bob'' ''session-1'')) = Some ''HTTP 500: Internal Server Error''"
proof -
  have valid: "validateParameters sampleEnv sampleTool [(''q'', JStr ''Paris'')] = Inr []"
    by (simp add: validateParameters_def sampleTool_def)
  have m: "3 = (case retries (apiConfig sampleTool) of
                  None \<Rightarrow> 3 | Some n \<Rightarrow> if 1 \<le> n then n else 3)"
    by (simp add: sampleTool_def)
  have upt: "[2..<Suc 3] = [2, 3]"
    by (simp add: upt_rec)
  have r: "retries (apiConfig sampleTool) = Some 3"
    by (simp add: sampleTool_def)
  show ?thesis
    using executeTool_retry_schedule [of sampleEnv sampleTool "[(''q'', JStr ''Paris'')]"
            always500 "\<lambda>n. Error ''HTTP 500: Internal Server Error''" 3 "[]"
            "''bob''" "''session-1''", OF valid attemptFetch_always500 m]
    by (simp add: upt r errorMessage_def del: upt_Suc)
qed

text \<open>Claim C4 as stated fails for \<open>retries: 0\<close>: three attempts are made, not
  none.\<close>

theorem executeTool_zero_retries_three_attempts:
  "retries (apiConfig zeroRetriesTool) = Some 0 \<and>
   fetchCalls (executeTool sampleEnv always500 [] zeroRetriesTool [(''q'', JStr ''Paris'')]
                 ''bob'' ''session-1'') = 3"
proof -
  have valid: "validateParameters sampleEnv zeroRetriesTool [(''q'', JStr ''Paris'')] = Inr []"
    unfolding zeroRetriesTool_def by (rule validateParameters_sample_Paris)
  have r: "retries (apiConfig zeroRetriesTool) = Some 0"
    by (simp add: zeroRetriesTool_def)
  have d: "retriesOrDefault zeroRetriesTool = 3"
    by (simp add: retriesOrDefault_def r)
  show ?thesis
    unfolding executeTool_all_fail [of sampleEnv zeroRetriesTool _ always500, OF valid
                attemptFetch_always500]
    by (simp add: r d executeToolCatch_def Let_def del: upt_Suc)
qed

subsection \<open>Usage records of the other paths, and a retry that succeeds\<close>

text \<open>Every path of \<open>executeTool\<close> but the return on validation messages logs one usage
  document: when validation passes or throws and the store accepts the document, the
  collection grows by exactly one record, unpaid, for this tool and its price, whose
  \<open>success\<close> is the one of the returned result.\<close>

theorem executeTool_logs_once:
  assumes "validateParameters env tool params = Inr [] \<or>
           (\<exists>e. validateParameters env tool params = Inl e)"
    and "\<And>usage. w_saveUsage w usage"
  shows "\<exists>usage. usageLog (executeTool env w ledger tool params uid sid) = ledger @ [usage] \<and>
           b_paid (u_billing usage) = False \<and>
           b_costInWei (u_billing usage) = costInWei (pricing tool) \<and>
           u_toolId usage = toolId tool \<and> u_userId usage = uid \<and> u_sessionId usage = sid \<and>
           r_success (u_response usage) =
             success (returned (executeTool env w ledger tool params uid sid))"
  using assms
  by (auto simp add: executeTool_def executeToolCatch_def logToolUsage_def Let_def
           split: sum.splits prod.splits)

theorem executeTool_logs_once_witness:
  "map (\<lambda>usage. (u_toolId usage, b_paid (u_billing usage), r_success (u_response usage)))
     (usageLog (executeTool sampleEnv always500 [] sampleTool [(''q'', JStr ''Paris'')]
                  ''bob'' ''session-1'')) = [(''tool_1'', False, False)]"
proof -
  have valid: "validateParameters sampleEnv sampleTool [(''q'', JStr ''Paris'')] = Inr [] \<or>
               (\<exists>e. validateParameters sampleEnv sampleTool [(''q'', JStr ''Paris'')] = Inl e)"
    by (simp add: validateParameters_def sampleTool_def)
  have saves: "\<And>usage. w_saveUsage always500 usage"
    by (simp add: always500_def)
  have failed: "success (returned (executeTool sampleEnv always500 [] sampleTool
                  [(''q'', JStr ''Paris'')] ''bob'' ''session-1'')) = False"
    unfolding executeTool_all_fail [of sampleEnv sampleTool _ always500,
        OF validateParameters_sample_Paris [of "apiConfig sampleTool", simplified]
           attemptFetch_always500]
    by (simp add: executeToolCatch_def Let_def)
  have tid: "toolId sampleTool = ''tool_1''" by (simp add: sampleTool_def)
  show ?thesis
    using executeTool_logs_once [of sampleEnv sampleTool "[(''q'', JStr ''Paris'')]" always500
            "[]" "''bob''" "''session-1''", OF valid saves] failed tid
    by auto
qed

lemma executeWithRetries_second_succeeds:
  assumes first: "attemptFetch (fetch 1 rc) = Inl e"
    and second: "attemptFetch (fetch 2 rc) = Inr r" and two: "2 \<le> maxRetries"
  shows "executeWithRetries fetch rc maxRetries = (Inr r, 2, [2000])"
proof -
  have lt: "1 < maxRetries" "Suc 0 < maxRetries" "1 \<le> maxRetries" "Suc 0 \<le> maxRetries"
    using two by simp_all
  have first': "attemptFetch (fetch (Suc 0) rc) = Inl e" using first by simp
  have one: "executeWithRetriesLoop fetch rc maxRetries 1 None [] =
             executeWithRetriesLoop fetch rc maxRetries 2 (Some e) [2000]"
    by (subst executeWithRetriesLoop.simps) (simp add: first' lt numeral_2_eq_2)
  have "executeWithRetriesLoop fetch rc maxRetries 2 (Some e) [2000] = (Inr r, 2, [2000])"
    by (subst executeWithRetriesLoop.simps) (simp add: second two)
  with one show ?thesis by (simp add: executeWithRetries_def)
qed

text \<open>An execution whose first attempt fails and whose second succeeds (with at least
  two attempts allowed) returns the success result of the second response after one
  delay of two seconds, and logs a usage record with \<open>success = true\<close>.\<close>

theorem executeTool_retry_then_success:
  assumes valid: "validateParameters env tool params = Inr []"
    and first: "attemptFetch (w_fetch w 1 (prepareRequest env tool params)) = Inl e"
    and second: "attemptFetch (w_fetch w 2 (prepareRequest env tool params)) = Inr r"
    and two: "2 \<le> retriesOrDefault tool"
  shows "success (returned (executeTool env w ledger tool params uid sid)) = True \<and>
         data (returned (executeTool env w ledger tool params uid sid)) = Some (f_data r) \<and>
         statusCode (returned (executeTool env w ledger tool params uid sid)) =
           Some (f_status r) \<and>
         fetchCalls (executeTool env w ledger tool params uid sid) = 2 \<and>
         sleeps (executeTool env w ledger tool params uid sid) = [2000] \<and>
         usageLog (executeTool env w ledger tool params uid sid) =
           logToolUsage w ledger (toolId tool) uid sid params
             \<lparr>r_success = True, r_data = Some (f_data r), r_error = None,
              r_statusCode = Some (f_status r),
              r_executionTime = w_endTime w - w_startTime w\<rparr>
             (costInWei (pricing tool))"
  by (simp add: executeTool_def valid Let_def
        executeWithRetries_second_succeeds [where fetch = "w_fetch w", OF first second two])

theorem executeTool_retry_then_success_witness:
  "success (returned (executeTool sampleEnv flaky [] sampleTool [(''q'', JStr ''Paris'')]
                        ''bob'' ''session-1'')) = True \<and>
   fetchCalls (executeTool sampleEnv flaky [] sampleTool [(''q'', JStr ''Paris'')]
                 ''bob'' ''session-1'') = 2 \<and>
   sleeps (executeTool sampleEnv flaky [] sampleTool [(''q'', JStr ''Paris'')]
             ''bob'' ''session-1'') = [2000] \<and>
   map (\<lambda>usage. r_success (u_response usage))
     (usageLog (executeTool sampleEnv flaky [] sampleTool [(''q'', JStr ''Paris'')]
                  ''bob'' ''session-1'')) = [True]"
proof -
  have valid: "validateParameters sampleEnv sampleTool [(''q'', JStr ''Paris'')] = Inr []"
    by (simp add: validateParameters_def sampleTool_def)
  have n503: "natToString 503 = ''503''"
    by (simp add: natToString.simps digitChar_def)
  have first: "attemptFetch (w_fetch flaky 1
                 (prepareRequest sampleEnv sampleTool [(''q'', JStr ''Paris'')])) =
               Inl (Error ''HTTP 503: Service Unavailable'')"
    by (simp add: attemptFetch_def flaky_def n503)
  have second: "attemptFetch (w_fetch flaky 2
                  (prepareRequest sampleEnv sampleTool [(''q'', JStr ''Paris'')])) =
                Inr \<lparr>f_data = JObj [(''temp'', JNum 21)], f_status = 200\<rparr>"
    by (simp add: attemptFetch_def flaky_def)
  have two: "2 \<le> retriesOrDefault sampleTool"
    by (simp add: retriesOrDefault_def sampleTool_def)
  show ?thesis
    using executeTool_retry_then_success [OF valid first second two, of "[]" "''bob''"
            "''session-1''"]
    by (simp add: logToolUsage_def flaky_def)
qed

section \<open>Cosine similarity\<close>

lemma fold_products_swap:
  "length vecA = length vecB \<Longrightarrow>
   fold (\<lambda>(a, b) (dotProduct, normA, normB).
           (dotProduct + a * b, normA + a * a, normB + b * b)) (zip vecB vecA) (d, nb, na) =
   (case fold (\<lambda>(a, b) (dotProduct, normA, normB).
                 (dotProduct + a * b, normA + a * a, normB + b * (b::real))) (zip vecA vecB)
           (d, na, nb) of
      (d', na', nb') \<Rightarrow> (d', nb', na'))"
proof (induction vecA vecB arbitrary: d na nb rule: list_induct2)
  case Nil
  then show ?case by simp
next
  case (Cons a vecA b vecB)
  show ?case
    using Cons.IH [of "d + a * b" "nb + b * b" "na + a * a"]
    by (simp add: mult.commute)
qed

text \<open>Cosine similarity is symmetric on vectors of equal length, and throws on vectors
  of different lengths.\<close>

theorem cosineSimilarity_symmetric:
  "(length vecA = length vecB \<longrightarrow> cosineSimilarity vecA vecB = cosineSimilarity vecB vecA) \<and>
   (length vecA \<noteq> length vecB \<longrightarrow>
      cosineSimilarity vecA vecB = Inl (Error ''Vectors must have the same length''))"
proof (intro conjI impI)
  assume len: "length vecA = length vecB"
  show "cosineSimilarity vecA vecB = cosineSimilarity vecB vecA"
    using fold_products_swap [OF len, of 0 0 0] len
    by (auto simp: cosineSimilarity_def mult.commute split: prod.splits)
next
  assume "length vecA \<noteq> length vecB"
  then show "cosineSimilarity vecA vecB = Inl (Error ''Vectors must have the same length'')"
    by (simp add: cosineSimilarity_def)
qed

theorem cosineSimilarity_symmetric_witness:
  "cosineSimilarity [1, 0] [2, 0] = cosineSimilarity [2, 0] [1, 0] \<and>
   cosineSimilarity [1, 0] [1] = Inl (Error ''Vectors must have the same length'')"
  using cosineSimilarity_symmetric [of "[1, 0]" "[2, 0]"]
        cosineSimilarity_symmetric [of "[1, 0]" "[1]"]
  by simp

section \<open>Ranking by similarity (\<open>findMostSimilar\<close>)\<close>






























section \<open>The discovery service (\<open>ToolDiscoveryService\<close>)\<close>

lemma natToString_20: "natToString 20 = ''20''"
  by (simp add: natToString.simps digitChar_def)

lemma stringLte_9_20: "stringLte ''9'' ''20'' = False"
  by simp

lemma stringLte_100_20: "stringLte ''100'' ''20'' = True"
  by simp

lemma trim_weather: "trim ''weather'' = ''weather''"
  by (simp add: trim_def isSpace_def)

lemma findTools_maxCost20:
  "findTools sampleCollaborators [cheapTool, dearTool] (globalCriteria maxCost20) = [dearTool]"
  by (simp add: findTools_def globalCriteria_def maxCost20_def matches_def holds_def
        natToString_20 cheapTool_def dearTool_def sampleTool_def)

lemma cosineSimilarity_01_10: "cosineSimilarity [0, 1] [1, 0] = Inr 0"
  by (simp add: cosineSimilarity_def)

lemma embedding_dearTool: "embedding dearTool = Some [1, 0]"
  by (simp add: dearTool_def sampleTool_def)

text \<open>Claim C3 at a collection of two public, active tools priced 9 wei and 100 wei
  and a \<open>maxCost\<close> of 20: both \<open>searchToolsGlobally\<close> and \<open>getToolsByCategory\<close>
  return the tool priced 100 and leave out the one priced 9, because \<open>$lte\<close>
  compares the strings \<open>"9"\<close> and \<open>"100"\<close> with \<open>"20"\<close>. The claim expects the
  comparison of the integers.\<close>

theorem maxCost_filter_compares_strings:
  "BigInt (costInWei (pricing cheapTool)) = Some 9 \<and>
   BigInt (costInWei (pricing dearTool)) = Some 100 \<and>
   searchToolsGlobally sampleCollaborators [cheapTool, dearTool] ''weather'' maxCost20 10 =
     Inr [dearTool] \<and>
   getToolsByCategory sampleCollaborators [cheapTool, dearTool] ''weather'' (Some 20) 20 =
     [dearTool]"
proof -
  have a: "BigInt (costInWei (pricing cheapTool)) = Some 9"
    by (simp add: cheapTool_def BigInt_def digitVal_def)
  have b: "BigInt (costInWei (pricing dearTool)) = Some 100"
    by (simp add: dearTool_def BigInt_def digitVal_def)
  have q: "embedQuery sampleCollaborators ''weather'' = Inr [0, 1]"
    by (simp add: sampleCollaborators_def)
  have c: "searchToolsGlobally sampleCollaborators [cheapTool, dearTool] ''weather'' maxCost20 10 =
     Inr [dearTool]"
    by (simp add: searchToolsGlobally_def trim_weather q findTools_maxCost20
          embedding_dearTool cosineSimilarity_01_10 sortBy_def)
  have f: "findTools sampleCollaborators [cheapTool, dearTool]
             (noCriteria\<lparr>c_isActive := Some True, c_isPublic := Some True,
                          c_category := Some ''weather'',
                          c_costLte := map_option natToString (Some 20)\<rparr>) = [dearTool]"
    by (simp add: findTools_def noCriteria_def matches_def holds_def
        natToString_20 cheapTool_def dearTool_def sampleTool_def sampleCollaborators_def)
  have d: "getToolsByCategory sampleCollaborators [cheapTool, dearTool] ''weather'' (Some 20) 20 =
     [dearTool]"
    unfolding getToolsByCategory_def f by (simp add: sortBy_def)
  show ?thesis using a b c d by simp
qed

lemma matches_byId:
  "matches c (noCriteria\<lparr>c_toolId := Some tid, c_isActive := Some True\<rparr>) t \<longleftrightarrow>
     toolId t = tid \<and> isActive (metadata t)"
  by (auto simp: matches_def noCriteria_def holds_def)

lemma getToolById_Some:
  "getToolById c store tid = Some t \<Longrightarrow> t \<in> set store \<and> toolId t = tid \<and> isActive (metadata t)"
  unfolding getToolById_def findOneTool_def
  by (auto simp: find_Some_iff matches_byId)

lemma getToolById_None_iff:
  "getToolById c store tid = None \<longleftrightarrow>
     (\<forall>t\<in>set store. toolId t = tid \<longrightarrow> \<not> isActive (metadata t))"
  unfolding getToolById_def findOneTool_def
  by (auto simp: find_None_iff matches_byId)

lemma map_toolId_updateFirst:
  "(\<And>t. toolId (f t) = toolId t) \<Longrightarrow> map toolId (snd (updateFirst tid f store)) = map toolId store"
  by (induction store) (auto split: prod.splits)

lemma set_updateFirst:
  "distinct (map toolId store) \<Longrightarrow> (\<And>t. toolId (f t) = toolId t) \<Longrightarrow>
   t' \<in> set (snd (updateFirst tid f store)) \<Longrightarrow> toolId t' = tid \<Longrightarrow>
   \<exists>t\<in>set store. t' = f t"
proof (induction store)
  case Nil
  then show ?case by simp
next
  case (Cons a store)
  show ?case
  proof (cases "toolId a = tid")
    case True
    with Cons.prems show ?thesis by (auto simp: image_iff)
  next
    case False
    with Cons.prems(3,4) have "t' \<in> set (snd (updateFirst tid f store))"
      by (auto split: prod.splits)
    with Cons show ?thesis by auto
  qed
qed

lemma toolId_deactivate: "toolId (deactivate now t) = toolId t"
  by (simp add: deactivate_def)

lemma isActive_deactivate: "\<not> isActive (metadata (deactivate now t))"
  by (simp add: deactivate_def)

text \<open>Claim C10. In a collection with unique \<open>toolId\<close>s (the unique index of the
  schema), the lookup of a tool whose \<open>metadata.isActive\<close> is false returns nothing,
  whatever \<open>getToolById\<close> returns is a document of the collection with the
  identifier asked for and \<open>metadata.isActive\<close> true, and after \<open>deactivateTool\<close>
  the lookup of that identifier returns nothing while the collection still holds a
  document for every identifier it held.\<close>

theorem getToolById_active_only:
  assumes unique: "distinct (map toolId store)"
  shows "(\<forall>t\<in>set store. \<not> isActive (metadata t) \<longrightarrow> getToolById c store (toolId t) = None) \<and>
         (\<forall>tid t. getToolById c store tid = Some t \<longrightarrow>
                   t \<in> set store \<and> toolId t = tid \<and> isActive (metadata t)) \<and>
         (\<forall>now tid. getToolById c (snd (deactivateTool now store tid)) tid = None \<and>
                    map toolId (snd (deactivateTool now store tid)) = map toolId store)"
proof (intro conjI ballI allI impI)
  fix t assume t: "t \<in> set store" and inactive: "\<not> isActive (metadata t)"
  have "\<forall>t'\<in>set store. toolId t' = toolId t \<longrightarrow> t' = t"
    using unique t by (meson distinct_map inj_onD)
  with inactive show "getToolById c store (toolId t) = None"
    by (auto simp: getToolById_None_iff)
next
  fix tid t assume "getToolById c store tid = Some t"
  then show "t \<in> set store" "toolId t = tid" "isActive (metadata t)"
    using getToolById_Some by blast+
next
  fix now tid
  show ids: "map toolId (snd (deactivateTool now store tid)) = map toolId store"
    unfolding deactivateTool_def by (rule map_toolId_updateFirst) (rule toolId_deactivate)
  show "getToolById c (snd (deactivateTool now store tid)) tid = None"
  proof -
    have "\<forall>t'\<in>set (snd (deactivateTool now store tid)). toolId t' = tid \<longrightarrow>
            \<not> isActive (metadata t')"
    proof (intro ballI impI)
      fix t' assume "t' \<in> set (snd (deactivateTool now store tid))" and "toolId t' = tid"
      then obtain t where "t' = deactivate now t"
        using set_updateFirst [where f = "deactivate now", OF unique toolId_deactivate]
        unfolding deactivateTool_def by blast
      then show "\<not> isActive (metadata t')" by (simp add: isActive_deactivate)
    qed
    then show ?thesis by (simp add: getToolById_None_iff)
  qed
qed

theorem getToolById_active_only_witness:
  "distinct (map toolId [sampleTool, retiredTool]) \<and>
   retiredTool \<in> set [sampleTool, retiredTool] \<and>
   \<not> isActive (metadata retiredTool) \<and>
   getToolById sampleCollaborators [sampleTool, retiredTool] (toolId retiredTool) = None \<and>
   getToolById sampleCollaborators (snd (deactivateTool 7 [sampleTool, retiredTool] ''tool_1''))
     ''tool_1'' = None \<and>
   map toolId (snd (deactivateTool 7 [sampleTool, retiredTool] ''tool_1'')) =
     [''tool_1'', ''tool_2'']"
proof -
  have d: "distinct (map toolId [sampleTool, retiredTool])"
    by (simp add: sampleTool_def retiredTool_def)
  have ids: "map toolId [sampleTool, retiredTool] = [''tool_1'', ''tool_2'']"
    by (simp add: sampleTool_def retiredTool_def)
  have i: "\<not> isActive (metadata retiredTool)"
    by (simp add: retiredTool_def)
  show ?thesis
    using getToolById_active_only [OF d, of sampleCollaborators] d i ids
    by simp
qed

lemma embedding_withDefaults:
  "embedding (withDefaults tid uid nm ds cat cfg ps rs pr d now) = d_embedding d"
  by (simp add: withDefaults_def)

lemma embedding_newApiTool:
  "newApiTool d now = Inr tool \<Longrightarrow> embedding tool = d_embedding d"
  unfolding newApiTool_def Let_def
  by (auto simp: embedding_withDefaults split: option.split_asm if_split_asm)

lemma saveTool_Inr: "saveTool store tool = Inr store' \<Longrightarrow> store' = store @ [tool]"
  by (auto simp: saveTool_def split: if_splits)

text \<open>Claim C5. When \<open>embedQuery\<close> rejects, \<open>registerApiTool\<close> rejects with the same
  error and the collection is unchanged. In every case the collection is either
  unchanged (and the registration failed) or longer by the one returned document,
  which carries the embedding the collaborator computed; that embedding is not empty,
  the collaborator answering with vectors of its fixed, positive dimension.\<close>

theorem registerApiTool_no_partial_write:
  assumes contract: "\<And>text v. embedQuery c text = Inr v \<Longrightarrow> v \<noteq> []"
  shows "(\<forall>e. embedQuery c (registerSearchText toolData) = Inl e \<longrightarrow>
               registerApiTool c now rnd store uid toolData = (Inl e, store)) \<and>
         (case registerApiTool c now rnd store uid toolData of
            (Inl e, store') \<Rightarrow> store' = store
          | (Inr tool, store') \<Rightarrow>
              store' = store @ [tool] \<and>
              (\<exists>emb. emb \<noteq> [] \<and> embedQuery c (registerSearchText toolData) = Inr emb \<and>
                     embedding tool = Some emb))"
proof (cases "embedQuery c (registerSearchText toolData)")
  case (Inl e)
  then show ?thesis by (simp add: registerApiTool_def)
next
  case emb: (Inr emb)
  have ne: "emb \<noteq> []" using contract emb by blast
  have tail: "\<And>d. case (case newApiTool d now of
                          Inl e \<Rightarrow> (Inl e, store)
                        | Inr tool \<Rightarrow>
                            (case saveTool store tool of
                               Inl e \<Rightarrow> (Inl e, store)
                             | Inr store' \<Rightarrow> (Inr tool, store'))) of
           (Inl e, store') \<Rightarrow> store' = store
         | (Inr tool, store') \<Rightarrow> store' = store @ [tool] \<and> embedding tool = d_embedding d"
    by (auto split: sum.splits dest: embedding_newApiTool saveTool_Inr)
  show ?thesis
    using ne tail [of "toolData\<lparr>d_userId := Some uid, d_toolId := Some (newToolId now rnd),
                                d_embedding := Some emb, d_updatedAt := Some now\<rparr>"]
    by (simp add: registerApiTool_def emb split: prod.splits sum.splits)
qed

lemma registerApiTool_down:
  "registerApiTool embeddingDown 1 ''k3x9q2m1z'' [sampleTool] ''alice'' sampleToolData =
     (Inl (Error ''Embedding service unavailable''), [sampleTool])"
  by (simp add: registerApiTool_def embeddingDown_def)

lemma natToString_now: "natToString 1700000000000 = ''1700000000000''"
  by (simp add: natToString.simps digitChar_def)

lemma registerApiTool_up:
  "map embedding (snd (registerApiTool sampleCollaborators 1700000000000 ''k3x9q2m1z'' [] ''alice''
                         sampleToolData)) = [Some [0, 1]] \<and>
   map toolId (snd (registerApiTool sampleCollaborators 1700000000000 ''k3x9q2m1z'' [] ''alice''
                      sampleToolData)) = [''tool_1700000000000_k3x9q2m1z'']"
  by (simp add: registerApiTool_def sampleCollaborators_def newApiTool_def sampleToolData_def
        sampleTool_def isWeiAmount_def digitVal_def validParameter_def saveTool_def newToolId_def withDefaults_def
        natToString_now)

theorem registerApiTool_no_partial_write_witness:
  "registerApiTool embeddingDown 1 ''k3x9q2m1z'' [sampleTool] ''alice'' sampleToolData =
     (Inl (Error ''Embedding service unavailable''), [sampleTool]) \<and>
   map embedding (snd (registerApiTool sampleCollaborators 1700000000000 ''k3x9q2m1z'' []
                         ''alice'' sampleToolData)) = [Some [0, 1]]"
proof -
  have down: "\<And>text v. embedQuery embeddingDown text = Inr v \<Longrightarrow> v \<noteq> []"
    by (simp add: embeddingDown_def)
  have up: "\<And>text v. embedQuery sampleCollaborators text = Inr v \<Longrightarrow> v \<noteq> []"
    by (auto simp: sampleCollaborators_def)
  have e: "embedQuery embeddingDown (registerSearchText sampleToolData) =
             Inl (Error ''Embedding service unavailable'')"
    by (simp add: embeddingDown_def)
  show ?thesis
    using registerApiTool_no_partial_write [of embeddingDown sampleToolData 1 "''k3x9q2m1z''"
            "[sampleTool]" "''alice''", OF down]
          registerApiTool_no_partial_write [of sampleCollaborators sampleToolData
            1700000000000 "''k3x9q2m1z''" "[]" "''alice''", OF up]
          e registerApiTool_up
    by simp
qed

lemma find_updateFirst:
  "List.find (\<lambda>t. toolId t = tid) store = Some t \<Longrightarrow>
   f t \<in> set (snd (updateFirst tid f store)) \<and>
   length (snd (updateFirst tid f store)) = length store"
  by (induction store) (auto split: prod.splits if_splits)

lemma findOneAndUpdate_found:
  assumes "List.find (\<lambda>t. toolId t = tid) store = Some t"
  shows "case findOneAndUpdate store tid f of
           (Inr (Some t'), store') \<Rightarrow>
             t' = f t \<and> t' \<in> set store' \<and> length store' = length store
         | (Inr None, store') \<Rightarrow> False
         | (Inl e, store') \<Rightarrow> store' = store \<and> toolId (f t) \<noteq> tid"
  using find_updateFirst [OF assms, of f]
  by (simp add: findOneAndUpdate_def assms)

lemma embedding_applyUpdates:
  "embedding (applyUpdates u t) =
     (case d_embedding u of None \<Rightarrow> embedding t | Some e \<Rightarrow> Some e)"
  by (simp add: applyUpdates_def)

lemma toolId_applyUpdates:
  "toolId (applyUpdates u t) = (case d_toolId u of None \<Rightarrow> toolId t | Some i \<Rightarrow> i)"
  by (simp add: applyUpdates_def)

text \<open>Claim C6, as the code has it, for an update of a tool that exists. When the
  patch carries a non-empty \<open>name\<close>, \<open>description\<close> or \<open>category\<close>, the embedding is
  computed from the patch before anything is persisted: if the collaborator rejects,
  the update rejects and the collection is unchanged, and otherwise the stored
  document carries the computed embedding. When it carries none, the stored
  embedding is unchanged, unless the patch brings an \<open>embedding\<close> of its own, which
  is stored. (An update is refused only when the patch sets another \<open>toolId\<close>.)\<close>

theorem updateTool_embedding:
  assumes found: "List.find (\<lambda>t. toolId t = tid) store = Some t"
  shows "if truthy (d_name updates) \<or> truthy (d_description updates) \<or>
            truthy (d_category updates)
         then (case embedQuery c (updateSearchText updates) of
                 Inl e \<Rightarrow> updateTool c now store tid updates = (Inl e, store)
               | Inr emb \<Rightarrow>
                   (case updateTool c now store tid updates of
                      (Inr (Some t'), store') \<Rightarrow>
                        embedding t' = Some emb \<and> t' \<in> set store' \<and>
                        length store' = length store
                    | (Inr None, store') \<Rightarrow> False
                    | (Inl e, store') \<Rightarrow> store' = store \<and> d_toolId updates \<noteq> None))
         else (case updateTool c now store tid updates of
                 (Inr (Some t'), store') \<Rightarrow>
                   embedding t' =
                     (case d_embedding updates of
                        None \<Rightarrow> embedding t | Some given \<Rightarrow> Some given) \<and>
                   t' \<in> set store' \<and> length store' = length store
               | (Inr None, store') \<Rightarrow> False
               | (Inl e, store') \<Rightarrow> store' = store \<and> d_toolId updates \<noteq> None)"
proof -
  have tid: "toolId t = tid"
    using found by (auto simp: find_Some_iff)
  have upd: "\<And>u. case findOneAndUpdate store tid (applyUpdates u) of
           (Inr (Some t'), store') \<Rightarrow>
             embedding t' = (case d_embedding u of None \<Rightarrow> embedding t | Some e \<Rightarrow> Some e) \<and>
             t' \<in> set store' \<and> length store' = length store
         | (Inr None, store') \<Rightarrow> False
         | (Inl e, store') \<Rightarrow> store' = store \<and> d_toolId u \<noteq> None"
    using findOneAndUpdate_found [OF found] tid
    by (fastforce simp: embedding_applyUpdates toolId_applyUpdates
          split: prod.splits sum.splits option.splits)
  show ?thesis
  proof (cases "truthy (d_name updates) \<or> truthy (d_description updates) \<or>
                truthy (d_category updates)")
    case True
    show ?thesis
    proof (cases "embedQuery c (updateSearchText updates)")
      case (Inl e)
      with True show ?thesis by (simp add: updateTool_def)
    next
      case (Inr emb)
      show ?thesis
        using True Inr upd [of "updates\<lparr>d_embedding := Some emb, d_updatedAt := Some now\<rparr>"]
        by (simp add: updateTool_def split: prod.splits sum.splits option.splits)
    qed
  next
    case False
    show ?thesis
      using False upd [of "updates\<lparr>d_updatedAt := Some now\<rparr>"]
      by (simp add: updateTool_def split: prod.splits sum.splits option.splits)
  qed
qed

lemma find_sampleTool: "List.find (\<lambda>t. toolId t = ''tool_1'') [sampleTool] = Some sampleTool"
  by (simp add: sampleTool_def)

lemma embedding_sampleTool: "embedding sampleTool = Some [1, 0]"
  by (simp add: sampleTool_def)

lemma updateTool_pricing:
  "updateTool sampleCollaborators 2 [sampleTool] ''tool_1'' pricingUpdate =
     (Inr (Some (applyUpdates (pricingUpdate\<lparr>d_updatedAt := Some 2\<rparr>) sampleTool)),
      [applyUpdates (pricingUpdate\<lparr>d_updatedAt := Some 2\<rparr>) sampleTool])"
  by (simp add: updateTool_def truthy_def pricingUpdate_def noUpdates_def findOneAndUpdate_def
        find_sampleTool toolId_applyUpdates)
     (simp add: sampleTool_def)

lemma updateTool_description:
  "updateTool sampleCollaborators 2 [sampleTool] ''tool_1'' descriptionUpdate =
     (Inr (Some (applyUpdates
                   (descriptionUpdate\<lparr>d_embedding := Some [0, 1], d_updatedAt := Some 2\<rparr>)
                   sampleTool)),
      [applyUpdates (descriptionUpdate\<lparr>d_embedding := Some [0, 1], d_updatedAt := Some 2\<rparr>)
         sampleTool])"
  by (simp add: updateTool_def truthy_def descriptionUpdate_def noUpdates_def
        findOneAndUpdate_def find_sampleTool toolId_applyUpdates sampleCollaborators_def)
     (simp add: sampleTool_def)

lemma updateTool_emptyName:
  "updateTool sampleCollaborators 2 [sampleTool] ''tool_1'' emptyNameUpdate =
     (Inr (Some (applyUpdates (emptyNameUpdate\<lparr>d_updatedAt := Some 2\<rparr>) sampleTool)),
      [applyUpdates (emptyNameUpdate\<lparr>d_updatedAt := Some 2\<rparr>) sampleTool])"
  by (simp add: updateTool_def truthy_def emptyNameUpdate_def noUpdates_def findOneAndUpdate_def
        find_sampleTool toolId_applyUpdates)
     (simp add: sampleTool_def)

lemma updateTool_embeddingGiven:
  "updateTool sampleCollaborators 2 [sampleTool] ''tool_1'' embeddingUpdate =
     (Inr (Some (applyUpdates (embeddingUpdate\<lparr>d_updatedAt := Some 2\<rparr>) sampleTool)),
      [applyUpdates (embeddingUpdate\<lparr>d_updatedAt := Some 2\<rparr>) sampleTool])"
  by (simp add: updateTool_def truthy_def embeddingUpdate_def noUpdates_def findOneAndUpdate_def
        find_sampleTool toolId_applyUpdates)
     (simp add: sampleTool_def)

lemma pricingUpdate_fields:
  "\<not> truthy (d_name pricingUpdate)" "\<not> truthy (d_description pricingUpdate)"
  "\<not> truthy (d_category pricingUpdate)" "d_embedding pricingUpdate = None"
  by (simp_all add: pricingUpdate_def noUpdates_def truthy_def)

lemma descriptionUpdate_fields:
  "truthy (d_description descriptionUpdate)"
  "embedQuery sampleCollaborators (updateSearchText descriptionUpdate) = Inr [0, 1]"
  by (simp_all add: descriptionUpdate_def noUpdates_def truthy_def sampleCollaborators_def)

theorem updateTool_embedding_witness:
  "embedding sampleTool = Some [1, 0] \<and>
   map embedding (snd (updateTool sampleCollaborators 2 [sampleTool] ''tool_1'' pricingUpdate)) =
     [Some [1, 0]] \<and>
   map embedding (snd (updateTool sampleCollaborators 2 [sampleTool] ''tool_1''
                         descriptionUpdate)) = [Some [0, 1]]"
  using updateTool_embedding [OF find_sampleTool, of pricingUpdate sampleCollaborators 2]
        updateTool_embedding [OF find_sampleTool, of descriptionUpdate sampleCollaborators 2]
  by (simp add: updateTool_pricing updateTool_description pricingUpdate_fields
        descriptionUpdate_fields embedding_sampleTool)

text \<open>Claim C6 as stated fails twice: a patch whose \<open>name\<close> is the empty string
  touches the name and the embedding is not recomputed; a patch that touches none of
  the three fields and carries an \<open>embedding\<close> changes the stored embedding.\<close>

theorem updateTool_embedding_not_as_stated:
  "d_name emptyNameUpdate = Some [] \<and>
   embedQuery sampleCollaborators (updateSearchText emptyNameUpdate) = Inr [0, 1] \<and>
   embedding sampleTool = Some [1, 0] \<and>
   map embedding (snd (updateTool sampleCollaborators 2 [sampleTool] ''tool_1''
                         emptyNameUpdate)) = [Some [1, 0]] \<and>
   d_name embeddingUpdate = None \<and> d_description embeddingUpdate = None \<and>
   d_category embeddingUpdate = None \<and>
   map embedding (snd (updateTool sampleCollaborators 2 [sampleTool] ''tool_1''
                         embeddingUpdate)) = [Some [5]]"
  by (simp add: updateTool_emptyName updateTool_embeddingGiven embedding_applyUpdates
        embedding_sampleTool)
     (simp add: emptyNameUpdate_def embeddingUpdate_def noUpdates_def sampleCollaborators_def
        embedding_sampleTool)

subsection \<open>Unique identifiers\<close>

lemma toolIds_updateFirst:
  "List.find (\<lambda>t. toolId t = tid) store = Some t \<Longrightarrow>
   set (map toolId (snd (updateFirst tid f store))) \<subseteq>
     insert (toolId (f t)) (set (map toolId store))"
proof (induction store)
  case Nil
  then show ?case by simp
next
  case (Cons a store)
  show ?case
  proof (cases "toolId a = tid")
    case True
    with Cons.prems show ?thesis by auto
  next
    case False
    with Cons.prems have "List.find (\<lambda>t. toolId t = tid) store = Some t" by simp
    from Cons.IH [OF this] False show ?thesis
      by (auto split: prod.splits) blast
  qed
qed

lemma distinct_updateFirst:
  assumes "distinct (map toolId store)"
    and "List.find (\<lambda>t. toolId t = tid) store = Some t"
    and "toolId (f t) = tid \<or> toolId (f t) \<notin> set (map toolId store)"
  shows "distinct (map toolId (snd (updateFirst tid f store)))"
  using assms
proof (induction store)
  case Nil
  then show ?case by simp
next
  case (Cons a store)
  show ?case
  proof (cases "toolId a = tid")
    case True
    with Cons.prems show ?thesis by auto
  next
    case False
    with Cons.prems have found: "List.find (\<lambda>t. toolId t = tid) store = Some t" by simp
    have tid: "toolId t = tid" using found by (auto simp: find_Some_iff)
    have ih: "distinct (map toolId (snd (updateFirst tid f store)))"
      using Cons.IH Cons.prems(1,3) found by auto
    have "toolId a \<noteq> toolId (f t)" using Cons.prems(3) False by auto
    moreover have "toolId a \<notin> set (map toolId store)" using Cons.prems(1) by simp
    ultimately have "toolId a \<notin> set (map toolId (snd (updateFirst tid f store)))"
      using toolIds_updateFirst [OF found, of f] by auto
    with ih False show ?thesis by (auto split: prod.splits)
  qed
qed

lemma distinct_findOneAndUpdate:
  assumes "distinct (map toolId store)"
  shows "distinct (map toolId (snd (findOneAndUpdate store tid f)))"
proof (cases "List.find (\<lambda>t. toolId t = tid) store")
  case None
  then show ?thesis using assms by (simp add: findOneAndUpdate_def)
next
  case (Some t)
  show ?thesis
    using assms distinct_updateFirst [OF assms Some, of f]
    by (auto simp: findOneAndUpdate_def Some)
qed

text \<open>The identifiers of the collection stay unique: a registration that succeeds adds
  a document whose \<open>toolId\<close> no stored document has, and registration, update and
  deactivation all leave a collection with unique identifiers one.\<close>

theorem toolIds_stay_unique:
  assumes "distinct (map toolId store)"
  shows "distinct (map toolId (snd (registerApiTool c now rnd store uid toolData))) \<and>
         (\<forall>tool store'. registerApiTool c now rnd store uid toolData = (Inr tool, store') \<longrightarrow>
                toolId tool \<notin> set (map toolId store)) \<and>
         distinct (map toolId (snd (updateTool c now store tid updates))) \<and>
         distinct (map toolId (snd (deactivateTool now store tid)))"
proof (intro conjI allI impI)
  show "distinct (map toolId (snd (registerApiTool c now rnd store uid toolData)))"
    using assms
    by (auto simp: registerApiTool_def saveTool_def split: sum.splits if_splits)
  show "distinct (map toolId (snd (updateTool c now store tid updates)))"
    using assms by (auto simp: updateTool_def distinct_findOneAndUpdate split: sum.splits)
  show "distinct (map toolId (snd (deactivateTool now store tid)))"
    using assms by (simp add: deactivateTool_def map_toolId_updateFirst toolId_deactivate)
next
  fix tool store'
  assume "registerApiTool c now rnd store uid toolData = (Inr tool, store')"
  then show "toolId tool \<notin> set (map toolId store)"
    by (auto simp: registerApiTool_def saveTool_def split: sum.splits if_splits)
qed

theorem toolIds_stay_unique_witness:
  "distinct (map toolId [sampleTool, retiredTool]) \<and>
   distinct (map toolId (snd (deactivateTool 7 [sampleTool, retiredTool] ''tool_1''))) \<and>
   distinct (map toolId (snd (updateTool sampleCollaborators 2 [sampleTool, retiredTool]
                                ''tool_1'' pricingUpdate)))"
proof -
  have d: "distinct (map toolId [sampleTool, retiredTool])"
    by (simp add: sampleTool_def retiredTool_def)
  show ?thesis
    using toolIds_stay_unique [OF d, where now = 7 and tid = "''tool_1''"]
          toolIds_stay_unique [OF d, where now = 2 and tid = "''tool_1''"
            and c = sampleCollaborators and updates = pricingUpdate] d
    by blast
qed


end
